theory Spec2Isabelle
  imports Main "HOL-Library.Word"
begin

section \<open>Basic types\<close>

text \<open>
  The backend is the Go module \<^verbatim>\<open>ololo-gate\<close>.  Go strings are byte strings
  (\<^typ>\<open>string\<close>), \<^verbatim>\<open>uuid.UUID\<close> is a 16-byte array, \<^verbatim>\<open>int\<close> is the 64-bit
  machine integer of the deployment target (\<^verbatim>\<open>++\<close> wraps), \<^verbatim>\<open>time.Time\<close>
  is an instant in nanoseconds since the Unix epoch and \<^verbatim>\<open>time.Duration\<close> a number
  of nanoseconds.
\<close>

type_synonym uuid = "128 word"
type_synonym go_int = "64 word"
type_synonym go_time = int
type_synonym duration = int

definition uuid_Nil :: uuid where
  "uuid_Nil = 0"

datatype error =
    ErrTokenMalformed
  | ErrTokenUnverifiable
  | ErrTokenSignatureInvalid
  | ErrTokenExpired
  | ErrTokenNotValidYet
  | ErrorsNew string
  | ErrRecordNotFound
  | ErrDuplicatedKey
  | PanicNilDereference

section \<open>Token codec (package utils)\<close>

type_synonym TokenType = string

definition AccessToken :: TokenType where
  "AccessToken = ''access''"

definition RefreshToken :: TokenType where
  "RefreshToken = ''refresh''"

definition AdminToken :: TokenType where
  "AdminToken = ''admin''"

record JWTConfig =
  Secret :: string
  AccessExpiry :: duration
  RefreshExpiry :: duration

text \<open>
  \<^verbatim>\<open>jwt.NumericDate\<close>: an instant cut to the library's precision of one second.
\<close>

definition TimePrecision :: duration where
  "TimePrecision = 1000000000"

definition NewNumericDate :: "go_time \<Rightarrow> go_time" where
  "NewNumericDate t = t - t mod TimePrecision"

text \<open>
  The two claim structures of the source.  The registered claims are pointers in Go,
  so each may be absent.
\<close>

record Claims =
  Claims_UserID :: uuid
  Claims_Phone :: string
  Claims_TokenType :: TokenType
  Claims_TokenVersion :: go_int
  Claims_ExpiresAt :: "go_time option"
  Claims_IssuedAt :: "go_time option"
  Claims_NotBefore :: "go_time option"

record AdminClaims =
  AdminClaims_AdminID :: uuid
  AdminClaims_Username :: string
  AdminClaims_Role :: string
  AdminClaims_TokenType :: TokenType
  AdminClaims_TokenVersion :: go_int
  AdminClaims_ExpiresAt :: "go_time option"
  AdminClaims_IssuedAt :: "go_time option"
  AdminClaims_NotBefore :: "go_time option"

text \<open>
  The JSON object in the middle segment of a token, as \<^verbatim>\<open>encoding/json\<close> reads it
  into either structure: the keys \<^verbatim>\<open>id\<close>, \<^verbatim>\<open>phone\<close>, \<^verbatim>\<open>username\<close>, \<^verbatim>\<open>role\<close>,
  \<^verbatim>\<open>token_type\<close>, \<^verbatim>\<open>token_version\<close>, \<^verbatim>\<open>exp\<close>, \<^verbatim>\<open>iat\<close>, \<^verbatim>\<open>nbf\<close>.  A key
  that is missing reads as the zero value of its field, so the string, id and number keys
  carry that zero value here; the three dates stay optional.
\<close>

record json_claims =
  json_id :: uuid
  json_phone :: string
  json_username :: string
  json_role :: string
  json_token_type :: string
  json_token_version :: go_int
  json_exp :: "go_time option"
  json_iat :: "go_time option"
  json_nbf :: "go_time option"

definition marshal_Claims :: "Claims \<Rightarrow> json_claims" where
  "marshal_Claims c =
     \<lparr>json_id = Claims_UserID c, json_phone = Claims_Phone c, json_username = [],
      json_role = [], json_token_type = Claims_TokenType c,
      json_token_version = Claims_TokenVersion c, json_exp = Claims_ExpiresAt c,
      json_iat = Claims_IssuedAt c, json_nbf = Claims_NotBefore c\<rparr>"

definition unmarshal_Claims :: "json_claims \<Rightarrow> Claims" where
  "unmarshal_Claims j =
     \<lparr>Claims_UserID = json_id j, Claims_Phone = json_phone j,
      Claims_TokenType = json_token_type j, Claims_TokenVersion = json_token_version j,
      Claims_ExpiresAt = json_exp j, Claims_IssuedAt = json_iat j,
      Claims_NotBefore = json_nbf j\<rparr>"

definition marshal_AdminClaims :: "AdminClaims \<Rightarrow> json_claims" where
  "marshal_AdminClaims c =
     \<lparr>json_id = AdminClaims_AdminID c, json_phone = [],
      json_username = AdminClaims_Username c, json_role = AdminClaims_Role c,
      json_token_type = AdminClaims_TokenType c,
      json_token_version = AdminClaims_TokenVersion c, json_exp = AdminClaims_ExpiresAt c,
      json_iat = AdminClaims_IssuedAt c, json_nbf = AdminClaims_NotBefore c\<rparr>"

definition unmarshal_AdminClaims :: "json_claims \<Rightarrow> AdminClaims" where
  "unmarshal_AdminClaims j =
     \<lparr>AdminClaims_AdminID = json_id j, AdminClaims_Username = json_username j,
      AdminClaims_Role = json_role j, AdminClaims_TokenType = json_token_type j,
      AdminClaims_TokenVersion = json_token_version j, AdminClaims_ExpiresAt = json_exp j,
      AdminClaims_IssuedAt = json_iat j, AdminClaims_NotBefore = json_nbf j\<rparr>"

subsection \<open>The libraries the code calls\<close>

text \<open>
  The signing methods a token header can name: the three HMAC methods are the values of
  the library type \<^verbatim>\<open>*jwt.SigningMethodHMAC\<close>; every other name is
  \<open>SigningMethodOther\<close>.
\<close>

datatype signing_method =
    SigningMethodHS256
  | SigningMethodHS384
  | SigningMethodHS512
  | SigningMethodOther string

fun is_SigningMethodHMAC :: "signing_method \<Rightarrow> bool" where
  "is_SigningMethodHMAC (SigningMethodOther a) = False"
| "is_SigningMethodHMAC m = True"

text \<open>
  What the program takes from outside its own source: the process-wide configuration
  \<^verbatim>\<open>config.AppConfig.JWT\<close>, and the primitives of \<^verbatim>\<open>golang-jwt/jwt/v5\<close> and
  \<^verbatim>\<open>x/crypto/bcrypt\<close>.  They are parameters of the model:
  \<^item> \<open>jwt_SignedString m j key\<close> serialises header and claims and signs them;
  \<^item> \<open>jwt_segments s\<close> splits and decodes a token string into method, claims object and
    signature, \<open>None\<close> when the string is not a well-formed token;
  \<^item> \<open>jwt_Verify m j sig key\<close> is the signature check of method \<open>m\<close>;
  \<^item> \<open>bcrypt_GenerateFromPassword pw\<close> is the salted hash,
    \<open>bcrypt_CompareHashAndPassword hash pw\<close> holds when the comparison returns no error.
\<close>

record env =
  AppConfig_JWT :: JWTConfig
  jwt_SignedString :: "signing_method \<Rightarrow> json_claims \<Rightarrow> string \<Rightarrow> error + string"
  jwt_segments :: "string \<Rightarrow> (signing_method \<times> json_claims \<times> string) option"
  jwt_Verify :: "signing_method \<Rightarrow> json_claims \<Rightarrow> string \<Rightarrow> string \<Rightarrow> bool"
  bcrypt_GenerateFromPassword :: "string \<Rightarrow> error + string"
  bcrypt_CompareHashAndPassword :: "string \<Rightarrow> string \<Rightarrow> bool"

record Token =
  Token_Method :: signing_method
  Token_Claims :: json_claims
  Token_Valid :: bool

text \<open>
  The library's claim validator with its default options, at instant \<open>now\<close>: expiry
  first (valid strictly before \<^verbatim>\<open>exp\<close>), then not-before (valid from \<^verbatim>\<open>nbf\<close> on);
  an absent date is not checked, and \<^verbatim>\<open>iat\<close> is not checked at all.
\<close>

definition Validate :: "go_time \<Rightarrow> json_claims \<Rightarrow> error option" where
  "Validate now j =
     (if (case json_exp j of None \<Rightarrow> False | Some e \<Rightarrow> \<not> now < e) then Some ErrTokenExpired
      else if (case json_nbf j of None \<Rightarrow> False | Some n \<Rightarrow> now < n) then Some ErrTokenNotValidYet
      else None)"

text \<open>
  \<^verbatim>\<open>jwt.ParseWithClaims\<close>: decode, ask the caller's key function for the key, check
  the signature, validate the registered claims.
\<close>

definition ParseWithClaims ::
  "env \<Rightarrow> go_time \<Rightarrow> string \<Rightarrow> (signing_method \<Rightarrow> error + string) \<Rightarrow> error + Token" where
  "ParseWithClaims e now tokenString keyFunc =
     (case jwt_segments e tokenString of
        None \<Rightarrow> Inl ErrTokenMalformed
      | Some (m, j, sig) \<Rightarrow>
          (case keyFunc m of
             Inl err \<Rightarrow> Inl ErrTokenUnverifiable
           | Inr key \<Rightarrow>
               if \<not> jwt_Verify e m j sig key then Inl ErrTokenSignatureInvalid
               else (case Validate now j of
                       Some err \<Rightarrow> Inl err
                     | None \<Rightarrow> Inr \<lparr>Token_Method = m, Token_Claims = j, Token_Valid = True\<rparr>)))"

subsection \<open>Minting\<close>

text \<open>\<^verbatim>\<open>generateToken\<close>; \<open>now\<close> is the value of \<^verbatim>\<open>time.Now()\<close>.\<close>

definition generateToken ::
  "env \<Rightarrow> go_time \<Rightarrow> uuid \<Rightarrow> string \<Rightarrow> go_int \<Rightarrow> TokenType \<Rightarrow> duration \<Rightarrow> error + string" where
  "generateToken e now userID phone tokenVersion tokenType expiry =
     (let expiresAt = now + expiry;
          claims = \<lparr>Claims_UserID = userID, Claims_Phone = phone,
                    Claims_TokenType = tokenType, Claims_TokenVersion = tokenVersion,
                    Claims_ExpiresAt = Some (NewNumericDate expiresAt),
                    Claims_IssuedAt = Some (NewNumericDate now),
                    Claims_NotBefore = Some (NewNumericDate now)\<rparr>
      in jwt_SignedString e SigningMethodHS256 (marshal_Claims claims)
           (Secret (AppConfig_JWT e)))"

record TokenPair =
  TokenPair_AccessToken :: string
  TokenPair_RefreshToken :: string

definition GenerateTokens :: "env \<Rightarrow> go_time \<Rightarrow> uuid \<Rightarrow> string \<Rightarrow> go_int \<Rightarrow> error + TokenPair" where
  "GenerateTokens e now userID phone tokenVersion =
     (case generateToken e now userID phone tokenVersion AccessToken
             (AccessExpiry (AppConfig_JWT e)) of
        Inl err \<Rightarrow> Inl err
      | Inr accessToken \<Rightarrow>
          (case generateToken e now userID phone tokenVersion RefreshToken
                  (RefreshExpiry (AppConfig_JWT e)) of
             Inl err \<Rightarrow> Inl err
           | Inr refreshToken \<Rightarrow>
               Inr \<lparr>TokenPair_AccessToken = accessToken,
                    TokenPair_RefreshToken = refreshToken\<rparr>))"

text \<open>\<^verbatim>\<open>GenerateAdminToken\<close>: the same, with no \<^verbatim>\<open>ExpiresAt\<close>.\<close>

definition GenerateAdminToken ::
  "env \<Rightarrow> go_time \<Rightarrow> uuid \<Rightarrow> string \<Rightarrow> string \<Rightarrow> go_int \<Rightarrow> error + string" where
  "GenerateAdminToken e now adminID username role tokenVersion =
     (let claims = \<lparr>AdminClaims_AdminID = adminID, AdminClaims_Username = username,
                    AdminClaims_Role = role, AdminClaims_TokenType = AdminToken,
                    AdminClaims_TokenVersion = tokenVersion,
                    AdminClaims_ExpiresAt = None,
                    AdminClaims_IssuedAt = Some (NewNumericDate now),
                    AdminClaims_NotBefore = Some (NewNumericDate now)\<rparr>
      in jwt_SignedString e SigningMethodHS256 (marshal_AdminClaims claims)
           (Secret (AppConfig_JWT e)))"

subsection \<open>Verifying\<close>

text \<open>The key function both validators pass to the parser.\<close>

definition keyFunc :: "env \<Rightarrow> signing_method \<Rightarrow> error + string" where
  "keyFunc e m =
     (if \<not> is_SigningMethodHMAC m then Inl (ErrorsNew ''invalid signing method'')
      else Inr (Secret (AppConfig_JWT e)))"

text \<open>
  \<^verbatim>\<open>ValidateToken\<close>.  After the type check the source reads
  \<^verbatim>\<open>claims.ExpiresAt.Time\<close> for its log line; \<^verbatim>\<open>ExpiresAt\<close> is a pointer, so a
  token without \<^verbatim>\<open>exp\<close> that got this far makes the function panic.
\<close>

definition ValidateToken :: "env \<Rightarrow> go_time \<Rightarrow> string \<Rightarrow> TokenType \<Rightarrow> error + Claims" where
  "ValidateToken e now tokenString expectedType =
     (case ParseWithClaims e now tokenString (keyFunc e) of
        Inl err \<Rightarrow> Inl err
      | Inr token \<Rightarrow>
          (let claims = unmarshal_Claims (Token_Claims token) in
           if \<not> Token_Valid token then Inl (ErrorsNew ''invalid token'')
           else if Claims_TokenType claims \<noteq> expectedType
             then Inl (ErrorsNew ''invalid token type'')
           else if Claims_ExpiresAt claims = None then Inl PanicNilDereference
           else Inr claims))"

text \<open>
  \<^verbatim>\<open>ValidateAdminToken\<close>; its log line reads \<^verbatim>\<open>claims.IssuedAt.Time\<close>.
\<close>

definition ValidateAdminToken :: "env \<Rightarrow> go_time \<Rightarrow> string \<Rightarrow> error + AdminClaims" where
  "ValidateAdminToken e now tokenString =
     (case ParseWithClaims e now tokenString (keyFunc e) of
        Inl err \<Rightarrow> Inl err
      | Inr token \<Rightarrow>
          (let claims = unmarshal_AdminClaims (Token_Claims token) in
           if \<not> Token_Valid token then Inl (ErrorsNew ''invalid token'')
           else if AdminClaims_TokenType claims \<noteq> AdminToken
             then Inl (ErrorsNew ''invalid token type'')
           else if AdminClaims_IssuedAt claims = None then Inl PanicNilDereference
           else Inr claims))"


section \<open>Credential store (package models, through GORM)\<close>

record User =
  User_ID :: uuid
  User_Phone :: string
  User_Password :: string
  User_TokenVersion :: go_int
  User_CurrentDeviceID :: string
  User_CreatedAt :: go_time
  User_UpdatedAt :: go_time
  User_DeletedAt :: "go_time option"

record Admin =
  Admin_ID :: uuid
  Admin_Username :: string
  Admin_Password :: string
  Admin_Role :: string
  Admin_TokenVersion :: go_int
  Admin_CreatedAt :: go_time
  Admin_UpdatedAt :: go_time
  Admin_DeletedAt :: "go_time option"

definition RoleSuper :: string where
  "RoleSuper = ''super''"

definition RoleRegular :: string where
  "RoleRegular = ''regular''"

text \<open>The two tables.  A row with \<open>DeletedAt = Some t\<close> is soft-deleted.\<close>

record DB =
  DB_users :: "User list"
  DB_admins :: "Admin list"

text \<open>
  \<^verbatim>\<open>BeforeCreate\<close> and \<^verbatim>\<open>CheckPassword\<close> of both models; \<open>newID\<close> is the value
  of \<^verbatim>\<open>uuid.New()\<close>.
\<close>

definition User_BeforeCreate :: "env \<Rightarrow> uuid \<Rightarrow> User \<Rightarrow> error + User" where
  "User_BeforeCreate e newID u =
     (let u1 = (if User_ID u = uuid_Nil then u\<lparr>User_ID := newID\<rparr> else u) in
      case bcrypt_GenerateFromPassword e (User_Password u1) of
        Inl err \<Rightarrow> Inl err
      | Inr hashedPassword \<Rightarrow> Inr (u1\<lparr>User_Password := hashedPassword\<rparr>))"

definition User_CheckPassword :: "env \<Rightarrow> User \<Rightarrow> string \<Rightarrow> bool" where
  "User_CheckPassword e u password = bcrypt_CompareHashAndPassword e (User_Password u) password"

definition Admin_BeforeCreate :: "env \<Rightarrow> uuid \<Rightarrow> Admin \<Rightarrow> error + Admin" where
  "Admin_BeforeCreate e newID a =
     (let a1 = (if Admin_ID a = uuid_Nil then a\<lparr>Admin_ID := newID\<rparr> else a) in
      case bcrypt_GenerateFromPassword e (Admin_Password a1) of
        Inl err \<Rightarrow> Inl err
      | Inr hashedPassword \<Rightarrow> Inr (a1\<lparr>Admin_Password := hashedPassword\<rparr>))"

definition Admin_CheckPassword :: "env \<Rightarrow> Admin \<Rightarrow> string \<Rightarrow> bool" where
  "Admin_CheckPassword e a password = bcrypt_CompareHashAndPassword e (Admin_Password a) password"

subsection \<open>The GORM calls the handlers make\<close>

text \<open>
  \<^verbatim>\<open>First\<close> selects among the rows that are not soft-deleted and satisfy the
  condition, ordered by primary key, and takes the first; with none it is
  \<^verbatim>\<open>ErrRecordNotFound\<close>.  A failure of the database connection itself is outside
  this model.
\<close>

fun least_by :: "('a \<Rightarrow> uuid) \<Rightarrow> 'a list \<Rightarrow> 'a option" where
  "least_by pk [] = None"
| "least_by pk (x # xs) =
     (case least_by pk xs of
        None \<Rightarrow> Some x
      | Some y \<Rightarrow> if pk x \<le> pk y then Some x else Some y)"

definition First_row ::
  "('a \<Rightarrow> uuid) \<Rightarrow> ('a \<Rightarrow> go_time option) \<Rightarrow> ('a \<Rightarrow> bool) \<Rightarrow> 'a list \<Rightarrow> error + 'a" where
  "First_row pk deleted cond rows =
     (case least_by pk (filter (\<lambda>r. deleted r = None \<and> cond r) rows) of
        None \<Rightarrow> Inl ErrRecordNotFound
      | Some r \<Rightarrow> Inr r)"

definition First_User :: "(User \<Rightarrow> bool) \<Rightarrow> DB \<Rightarrow> error + User" where
  "First_User cond db = First_row User_ID User_DeletedAt cond (DB_users db)"

definition First_Admin :: "(Admin \<Rightarrow> bool) \<Rightarrow> DB \<Rightarrow> error + Admin" where
  "First_Admin cond db = First_row Admin_ID Admin_DeletedAt cond (DB_admins db)"

text \<open>
  \<^verbatim>\<open>Select("id", "token_version").First(&user, id)\<close> fills only the two selected
  columns of a fresh \<^verbatim>\<open>models.User\<close>.
\<close>

definition Select_id_token_version :: "User \<Rightarrow> User" where
  "Select_id_token_version u =
     \<lparr>User_ID = User_ID u, User_Phone = [], User_Password = [],
      User_TokenVersion = User_TokenVersion u, User_CurrentDeviceID = [],
      User_CreatedAt = 0, User_UpdatedAt = 0, User_DeletedAt = None\<rparr>"

definition First_User_id_token_version :: "uuid \<Rightarrow> DB \<Rightarrow> error + User" where
  "First_User_id_token_version i db =
     (case First_User (\<lambda>u. User_ID u = i) db of
        Inl err \<Rightarrow> Inl err
      | Inr u \<Rightarrow> Inr (Select_id_token_version u))"

text \<open>
  The composite unique indexes \<^verbatim>\<open>idx_phone_deleted_at\<close> and
  \<^verbatim>\<open>idx_username_deleted_at\<close>: two different rows may not agree on the key column
  and on \<^verbatim>\<open>deleted_at\<close>, where a NULL \<^verbatim>\<open>deleted_at\<close> agrees with nothing (the rule
  of PostgreSQL, the production database, and of SQLite, the test database).
\<close>

definition index_conflict ::
  "('a \<Rightarrow> uuid) \<Rightarrow> ('a \<Rightarrow> string) \<Rightarrow> ('a \<Rightarrow> go_time option) \<Rightarrow> 'a \<Rightarrow> 'a list \<Rightarrow> bool" where
  "index_conflict pk key deleted u rows =
     (\<exists>r \<in> set rows. pk r \<noteq> pk u \<and> key r = key u \<and> deleted u \<noteq> None \<and> deleted r = deleted u)"

text \<open>
  \<^verbatim>\<open>Create\<close>: the hook, the timestamps, then the insert, which the primary key or
  the unique index can refuse.
\<close>

definition Create_User :: "env \<Rightarrow> go_time \<Rightarrow> uuid \<Rightarrow> User \<Rightarrow> DB \<Rightarrow> error + (User \<times> DB)" where
  "Create_User e now newID u db =
     (case User_BeforeCreate e newID u of
        Inl err \<Rightarrow> Inl err
      | Inr u1 \<Rightarrow>
          (let u2 = u1\<lparr>User_CreatedAt := now, User_UpdatedAt := now\<rparr> in
           if (\<exists>r \<in> set (DB_users db). User_ID r = User_ID u2) then Inl ErrDuplicatedKey
           else if index_conflict User_ID User_Phone User_DeletedAt u2 (DB_users db)
             then Inl ErrDuplicatedKey
           else Inr (u2, db\<lparr>DB_users := DB_users db @ [u2]\<rparr>)))"

text \<open>
  \<^verbatim>\<open>Save\<close> of a row with a primary key: an update of every column of the rows with
  that key that are not soft-deleted, stamping \<^verbatim>\<open>updated_at\<close>; when no row was
  updated, an insert that overwrites on a primary-key conflict.
\<close>

definition Save_rows ::
  "('a \<Rightarrow> uuid) \<Rightarrow> ('a \<Rightarrow> go_time option) \<Rightarrow> 'a \<Rightarrow> 'a list \<Rightarrow> 'a list" where
  "Save_rows pk deleted u rows =
     (if (\<exists>r \<in> set rows. pk r = pk u \<and> deleted r = None)
        then map (\<lambda>r. if pk r = pk u \<and> deleted r = None then u else r) rows
      else if (\<exists>r \<in> set rows. pk r = pk u)
        then map (\<lambda>r. if pk r = pk u then u else r) rows
      else rows @ [u])"

definition Save_User :: "go_time \<Rightarrow> User \<Rightarrow> DB \<Rightarrow> error + DB" where
  "Save_User now u db =
     (let u1 = u\<lparr>User_UpdatedAt := now\<rparr> in
      if index_conflict User_ID User_Phone User_DeletedAt u1 (DB_users db)
        then Inl ErrDuplicatedKey
      else Inr (db\<lparr>DB_users := Save_rows User_ID User_DeletedAt u1 (DB_users db)\<rparr>))"

definition Save_Admin :: "go_time \<Rightarrow> Admin \<Rightarrow> DB \<Rightarrow> error + DB" where
  "Save_Admin now a db =
     (let a1 = a\<lparr>Admin_UpdatedAt := now\<rparr> in
      if index_conflict Admin_ID Admin_Username Admin_DeletedAt a1 (DB_admins db)
        then Inl ErrDuplicatedKey
      else Inr (db\<lparr>DB_admins := Save_rows Admin_ID Admin_DeletedAt a1 (DB_admins db)\<rparr>))"

section \<open>HTTP responses\<close>

text \<open>
  A handler answers with a status code and a JSON body \<^verbatim>\<open>{success, message, data}\<close>.
  The \<^verbatim>\<open>data\<close> objects the modelled handlers send are listed by shape; the two
  \<^verbatim>\<open>*_expires_in\<close> numbers of the login answer, copies of the configuration, are
  left out.
\<close>

datatype data =
    NoData
  | UserData uuid string
  | LoginData uuid string string string
  | RefreshData string
  | AdminLoginData uuid string string string
  | AdminData uuid string string
  | UserDataWarning uuid string string

datatype response = Response (Status: nat) (Success: bool) (Message: string) (Data: data)

section \<open>Session issuer (package handlers)\<close>

datatype RegisterRequest =
  RegisterRequest (RegisterRequest_Phone: string) (RegisterRequest_Password: string)

datatype LoginRequest =
  LoginRequest (LoginRequest_Phone: string) (LoginRequest_Password: string)


datatype AdminLoginRequest =
  AdminLoginRequest (AdminLoginRequest_Username: string) (AdminLoginRequest_Password: string)

text \<open>
  \<^verbatim>\<open>phoneRegex\<close> is \<^verbatim>\<open>^\+[1-9]\d{1,14}$\<close>: a plus sign, a digit from 1 to 9,
  then one to fourteen digits, and nothing else.
\<close>

fun phoneRegex_MatchString :: "string \<Rightarrow> bool" where
  "phoneRegex_MatchString (p # d # ds) =
     (p = CHR ''+'' \<and> d \<in> set ''123456789'' \<and> 1 \<le> length ds \<and> length ds \<le> 14 \<and>
      (\<forall>c \<in> set ds. c \<in> set ''0123456789''))"
| "phoneRegex_MatchString s = False"

text \<open>
  Every handler takes the environment, the instant of the request, the store and the
  parts of the request it reads, and returns its answer with the store it leaves.  A
  request body that \<^verbatim>\<open>BodyParser\<close> rejects is \<open>None\<close>.
\<close>

definition Register ::
  "env \<Rightarrow> go_time \<Rightarrow> uuid \<Rightarrow> DB \<Rightarrow> RegisterRequest option \<Rightarrow> response \<times> DB" where
  "Register e now newID db body =
     (case body of
        None \<Rightarrow> (Response 400 False ''Invalid request body'' NoData, db)
      | Some req \<Rightarrow>
          if \<not> phoneRegex_MatchString (RegisterRequest_Phone req) then
            (Response 400 False
               ''Invalid phone number format. Use international format (e.g., +77771234567)''
               NoData, db)
          else if length (RegisterRequest_Password req) < 6 then
            (Response 400 False ''Password must be at least 6 characters long'' NoData, db)
          else
            (case First_User (\<lambda>u. User_Phone u = RegisterRequest_Phone req) db of
               Inr existingUser \<Rightarrow>
                 (Response 409 False ''User with this phone number already exists'' NoData, db)
             | Inl err \<Rightarrow>
                 (let user = \<lparr>User_ID = uuid_Nil, User_Phone = RegisterRequest_Phone req,
                              User_Password = RegisterRequest_Password req,
                              User_TokenVersion = 0, User_CurrentDeviceID = [],
                              User_CreatedAt = 0, User_UpdatedAt = 0, User_DeletedAt = None\<rparr>
                  in case Create_User e now newID user db of
                       Inl err \<Rightarrow> (Response 500 False ''Failed to create user'' NoData, db)
                     | Inr (user', db') \<Rightarrow>
                         (Response 201 True ''User registered successfully''
                            (UserData (User_ID user') (User_Phone user')), db'))))"

text \<open>\<^verbatim>\<open>Login\<close>; \<open>Query\<close> is \<^verbatim>\<open>c.Query\<close>, empty for an absent parameter.\<close>

definition Login ::
  "env \<Rightarrow> go_time \<Rightarrow> DB \<Rightarrow> LoginRequest option \<Rightarrow> (string \<Rightarrow> string) \<Rightarrow> response \<times> DB" where
  "Login e now db body Query =
     (case body of
        None \<Rightarrow> (Response 400 False ''Invalid request body'' NoData, db)
      | Some req \<Rightarrow>
          if \<not> phoneRegex_MatchString (LoginRequest_Phone req) then
            (Response 400 False ''Invalid phone number format'' NoData, db)
          else
            (case First_User (\<lambda>u. User_Phone u = LoginRequest_Phone req) db of
               Inl err \<Rightarrow> (Response 401 False ''Invalid credentials'' NoData, db)
             | Inr user \<Rightarrow>
                 if \<not> User_CheckPassword e user (LoginRequest_Password req) then
                   (Response 401 False ''Invalid credentials'' NoData, db)
                 else
                   (let deviceID = (if Query ''deviceId'' = [] then Query ''device_id''
                                    else Query ''deviceId'');
                        deviceChanged =
                          (if deviceID = [] then True
                           else User_CurrentDeviceID user \<noteq> [] \<and>
                                User_CurrentDeviceID user \<noteq> deviceID);
                        user1 = (if deviceChanged
                                 then user\<lparr>User_TokenVersion := User_TokenVersion user + 1\<rparr>
                                 else user);
                        user2 = (if deviceID \<noteq> [] then user1\<lparr>User_CurrentDeviceID := deviceID\<rparr>
                                 else user1)
                    in case Save_User now user2 db of
                         Inl err \<Rightarrow>
                           (Response 500 False ''Failed to update user token version'' NoData, db)
                       | Inr db' \<Rightarrow>
                           (case GenerateTokens e now (User_ID user2) (User_Phone user2)
                                   (User_TokenVersion user2) of
                              Inl err \<Rightarrow>
                                (Response 500 False ''Failed to generate tokens'' NoData, db')
                            | Inr tokens \<Rightarrow>
                                (Response 200 True ''Login successful''
                                   (LoginData (User_ID user2) (User_Phone user2)
                                      (TokenPair_AccessToken tokens)
                                      (TokenPair_RefreshToken tokens)), db')))))"



text \<open>\<^verbatim>\<open>AdminLogin\<close>.\<close>

definition AdminLogin ::
  "env \<Rightarrow> go_time \<Rightarrow> DB \<Rightarrow> AdminLoginRequest option \<Rightarrow> response \<times> DB" where
  "AdminLogin e now db body =
     (case body of
        None \<Rightarrow> (Response 400 False ''Invalid request body'' NoData, db)
      | Some req \<Rightarrow>
          if AdminLoginRequest_Username req = [] \<or> AdminLoginRequest_Password req = [] then
            (Response 400 False ''Username and password are required'' NoData, db)
          else
            (case First_Admin (\<lambda>a. Admin_Username a = AdminLoginRequest_Username req) db of
               Inl err \<Rightarrow> (Response 401 False ''Invalid credentials'' NoData, db)
             | Inr admin \<Rightarrow>
                 if \<not> Admin_CheckPassword e admin (AdminLoginRequest_Password req) then
                   (Response 401 False ''Invalid credentials'' NoData, db)
                 else
                   (let admin1 = admin\<lparr>Admin_TokenVersion := Admin_TokenVersion admin + 1\<rparr>
                    in case Save_Admin now admin1 db of
                         Inl err \<Rightarrow>
                           (Response 500 False ''Failed to update admin token version'' NoData,
                            db)
                       | Inr db' \<Rightarrow>
                           (case GenerateAdminToken e now (Admin_ID admin1)
                                   (Admin_Username admin1) (Admin_Role admin1)
                                   (Admin_TokenVersion admin1) of
                              Inl err \<Rightarrow>
                                (Response 500 False ''Failed to generate token'' NoData, db')
                            | Inr token \<Rightarrow>
                                (Response 200 True ''Login successful''
                                   (AdminLoginData (Admin_ID admin1) (Admin_Username admin1)
                                      (Admin_Role admin1) token), db')))))"

section \<open>Access guards (package middleware)\<close>

text \<open>\<^verbatim>\<open>strings.Split(s, sep)\<close> for a separator of one byte.\<close>

fun strings_Split :: "string \<Rightarrow> char \<Rightarrow> string list" where
  "strings_Split [] sep = [[]]"
| "strings_Split (x # xs) sep =
     (if x = sep then [] # strings_Split xs sep
      else (case strings_Split xs sep of
              [] \<Rightarrow> [[x]]
            | p # ps \<Rightarrow> (x # p) # ps))"

text \<open>
  What a guard leaves in \<^verbatim>\<open>c.Locals\<close> before it calls the next handler: the user
  guard sets \<^verbatim>\<open>id\<close> and \<^verbatim>\<open>phone\<close>, the admin guard \<^verbatim>\<open>id\<close>,
  \<^verbatim>\<open>admin_username\<close> and \<^verbatim>\<open>admin_role\<close>.
\<close>

datatype locals =
    UserLocals uuid string
  | AdminLocals uuid string string

datatype guard_result =
    Reply response
  | Next locals
  | Panicked

definition Unauthorized :: "string \<Rightarrow> guard_result" where
  "Unauthorized msg = Reply (Response 401 False msg NoData)"

text \<open>\<^verbatim>\<open>JWTProtected\<close>; \<open>authHeader\<close> is \<^verbatim>\<open>c.Get("Authorization")\<close>.\<close>

definition JWTProtected :: "env \<Rightarrow> go_time \<Rightarrow> DB \<Rightarrow> string \<Rightarrow> guard_result" where
  "JWTProtected e now db authHeader =
     (if authHeader = [] then Unauthorized ''Missing authorization header''
      else
        (let parts = strings_Split authHeader CHR '' '' in
         if length parts \<noteq> 2 \<or> parts ! 0 \<noteq> ''Bearer'' then
           Unauthorized ''Invalid authorization header format. Use: Bearer <token>''
         else
           (let tokenString = parts ! 1 in
            case ValidateToken e now tokenString AccessToken of
              Inl PanicNilDereference \<Rightarrow> Panicked
            | Inl err \<Rightarrow> Unauthorized ''Invalid or expired token''
            | Inr claims \<Rightarrow>
                (case First_User_id_token_version (Claims_UserID claims) db of
                   Inl err \<Rightarrow> Unauthorized ''User not found''
                 | Inr user \<Rightarrow>
                     if User_TokenVersion user \<noteq> Claims_TokenVersion claims then
                       Unauthorized ''Token has been invalidated. Please login again.''
                     else Next (UserLocals (Claims_UserID claims) (Claims_Phone claims))))))"

text \<open>\<^verbatim>\<open>AdminJWTProtected\<close>.\<close>

definition AdminJWTProtected :: "env \<Rightarrow> go_time \<Rightarrow> DB \<Rightarrow> string \<Rightarrow> guard_result" where
  "AdminJWTProtected e now db authHeader =
     (if authHeader = [] then Unauthorized ''Missing authorization header''
      else
        (let parts = strings_Split authHeader CHR '' '' in
         if length parts \<noteq> 2 \<or> parts ! 0 \<noteq> ''Bearer'' then
           Unauthorized ''Invalid authorization header format. Use: Bearer <token>''
         else
           (let tokenString = parts ! 1 in
            case ValidateAdminToken e now tokenString of
              Inl PanicNilDereference \<Rightarrow> Panicked
            | Inl err \<Rightarrow> Unauthorized ''Invalid or expired token''
            | Inr claims \<Rightarrow>
                (case First_Admin (\<lambda>a. Admin_ID a = AdminClaims_AdminID claims) db of
                   Inl err \<Rightarrow> Unauthorized ''Token has been invalidated''
                 | Inr admin \<Rightarrow>
                     if Admin_TokenVersion admin \<noteq> AdminClaims_TokenVersion claims then
                       Unauthorized ''Token has been invalidated''
                     else Next (AdminLocals (AdminClaims_AdminID claims)
                                  (AdminClaims_Username claims) (AdminClaims_Role claims))))))"

section \<open>Administrative updates (package handlers)\<close>

text \<open>
  \<^verbatim>\<open>UpdateAdminRequest\<close> has pointer fields: each may be absent.
\<close>

datatype UpdateAdminRequest =
  UpdateAdminRequest (UpdateAdminRequest_Password: "string option")
    (UpdateAdminRequest_Username: "string option") (UpdateAdminRequest_Role: "string option")

text \<open>
  \<^verbatim>\<open>UpdateAdmin\<close>.  \<open>idParam\<close> is the result of \<^verbatim>\<open>uuid.Parse(c.Params("id"))\<close>,
  \<open>None\<close> for an error; the role and id of the requesting admin are the locals the admin
  guard has set.
\<close>

definition UpdateAdmin ::
  "env \<Rightarrow> go_time \<Rightarrow> DB \<Rightarrow> uuid option \<Rightarrow> string \<Rightarrow> uuid \<Rightarrow> UpdateAdminRequest option
     \<Rightarrow> response \<times> DB" where
  "UpdateAdmin e now db idParam requestingAdminRole requestingAdminID body =
     (case idParam of
        None \<Rightarrow> (Response 400 False ''Invalid admin ID format'' NoData, db)
      | Some adminID \<Rightarrow>
          if requestingAdminID \<noteq> adminID \<and> requestingAdminRole \<noteq> RoleSuper then
            (Response 403 False ''Regular admins can only update their own record'' NoData, db)
          else
            (case body of
               None \<Rightarrow> (Response 400 False ''Invalid request body'' NoData, db)
             | Some req \<Rightarrow>
                 if UpdateAdminRequest_Password req = None \<and>
                    UpdateAdminRequest_Username req = None \<and>
                    UpdateAdminRequest_Role req = None then
                   (Response 400 False
                      ''At least one field (password, username, or role) must be provided''
                      NoData, db)
                 else if UpdateAdminRequest_Role req \<noteq> None \<and> requestingAdminRole \<noteq> RoleSuper
                 then
                   (Response 403 False ''Only super admins can change admin roles'' NoData, db)
                 else
                   (case First_Admin (\<lambda>a. Admin_ID a = adminID) db of
                      Inl err \<Rightarrow> (Response 404 False ''Admin not found'' NoData, db)
                    | Inr admin \<Rightarrow>
                        (case (case UpdateAdminRequest_Password req of
                                 None \<Rightarrow> Inr admin
                               | Some password \<Rightarrow>
                                   if length password < 6 then
                                     Inl (Response 400 False
                                            ''Password must be at least 6 characters long''
                                            NoData)
                                   else
                                     (case bcrypt_GenerateFromPassword e password of
                                        Inl err \<Rightarrow>
                                          Inl (Response 500 False ''Failed to hash password''
                                                 NoData)
                                      | Inr hashedPassword \<Rightarrow>
                                          Inr (admin\<lparr>Admin_Password := hashedPassword\<rparr>))) of
                           Inl resp \<Rightarrow> (resp, db)
                         | Inr admin1 \<Rightarrow>
                             (let admin2 = (case UpdateAdminRequest_Username req of
                                              None \<Rightarrow> admin1
                                            | Some username \<Rightarrow>
                                                admin1\<lparr>Admin_Username := username\<rparr>)
                              in case (case UpdateAdminRequest_Role req of
                                         None \<Rightarrow> Inr admin2
                                       | Some role \<Rightarrow>
                                           if role \<noteq> RoleSuper \<and> role \<noteq> RoleRegular then
                                             Inl (Response 400 False
                                                    (''Invalid role. Must be 'super' or 'regular'' @ [CHR 0x27])
                                                    NoData)
                                           else Inr (admin2\<lparr>Admin_Role := role\<rparr>)) of
                                   Inl resp \<Rightarrow> (resp, db)
                                 | Inr admin3 \<Rightarrow>
                                     (case Save_Admin now admin3 db of
                                        Inl err \<Rightarrow>
                                          (Response 500 False ''Failed to update admin'' NoData,
                                           db)
                                      | Inr db' \<Rightarrow>
                                          (Response 200 True ''Admin updated successfully''
                                             (AdminData (Admin_ID admin3)
                                                (Admin_Username admin3) (Admin_Role admin3)),
                                           db')))))))"

text \<open>
  \<^verbatim>\<open>UpdateUserRequest\<close>: phone, password and the location assignments, each a
  location id with its gate ids.
\<close>

datatype UpdateUserRequest =
  UpdateUserRequest (UpdateUserRequest_Phone: string) (UpdateUserRequest_Password: string)
    (UpdateUserRequest_Locations: "(int \<times> int list) list")

text \<open>
  \<^verbatim>\<open>UpdateUser\<close>, as far as it touches the users table and chooses its answer.
  \<open>assign\<close> is the outcome of the third-party call
  \<^verbatim>\<open>AssignUserToLocationsAndGates\<close> (the text of its error, \<open>None\<close> for success),
  made only when locations were sent.  The rows the handler writes to the audit log
  table are not part of this model.  The body of the handler after the lookup is given
  block by block, in the order of the source; a block returns either the answer that ends
  the request or the \<^verbatim>\<open>user\<close> variable as it leaves it.
\<close>

text \<open>The block \<^verbatim>\<open>Validate phone number if provided and different from current\<close>.\<close>

definition UpdateUser_phone :: "DB \<Rightarrow> UpdateUserRequest \<Rightarrow> User \<Rightarrow> response + User" where
  "UpdateUser_phone db req user =
     (if UpdateUserRequest_Phone req \<noteq> [] \<and> UpdateUserRequest_Phone req \<noteq> User_Phone user then
        if \<not> phoneRegex_MatchString (UpdateUserRequest_Phone req) then
          Inl (Response 400 False
                 ''Invalid phone number format. Use international format (e.g., +77771234567)''
                 NoData)
        else
          (case First_User (\<lambda>u. User_Phone u = UpdateUserRequest_Phone req) db of
             Inr existingUser \<Rightarrow> Inl (Response 409 False ''Phone number is already in use'' NoData)
           | Inl err \<Rightarrow> Inr (user\<lparr>User_Phone := UpdateUserRequest_Phone req\<rparr>))
      else Inr user)"

text \<open>The block \<^verbatim>\<open>Update password if provided\<close>.\<close>

definition UpdateUser_password :: "env \<Rightarrow> UpdateUserRequest \<Rightarrow> User \<Rightarrow> response + User" where
  "UpdateUser_password e req user =
     (if UpdateUserRequest_Password req \<noteq> [] then
        (case bcrypt_GenerateFromPassword e (UpdateUserRequest_Password req) of
           Inl err \<Rightarrow> Inl (Response 500 False ''Failed to hash password'' NoData)
         | Inr hashedPassword \<Rightarrow>
             Inr (user\<lparr>User_Password := hashedPassword,
                       User_TokenVersion := User_TokenVersion user + 1\<rparr>))
      else Inr user)"

text \<open>The block \<^verbatim>\<open>Increment token version if phone was changed\<close>.\<close>

definition UpdateUser_phone_changed :: "UpdateUserRequest \<Rightarrow> User \<Rightarrow> User" where
  "UpdateUser_phone_changed req user =
     (if UpdateUserRequest_Phone req \<noteq> [] \<and> UpdateUserRequest_Phone req \<noteq> User_Phone user
      then user\<lparr>User_TokenVersion := User_TokenVersion user + 1\<rparr>
      else user)"

text \<open>The save and the answer.\<close>

definition UpdateUser_save ::
  "go_time \<Rightarrow> DB \<Rightarrow> UpdateUserRequest \<Rightarrow> string option \<Rightarrow> User \<Rightarrow> response \<times> DB" where
  "UpdateUser_save now db req assign user =
     (case Save_User now user db of
        Inl err \<Rightarrow> (Response 500 False ''Failed to update user'' NoData, db)
      | Inr db' \<Rightarrow>
          if 0 < length (UpdateUserRequest_Locations req) then
            (case assign of
               Some msg \<Rightarrow>
                 (Response 200 True
                    ''User updated successfully but location assignment failed. Please try to assign locations and gates again.''
                    (UserDataWarning (User_ID user) (User_Phone user)
                       (''Third-party API assignment error: '' @ msg)),
                  db')
             | None \<Rightarrow>
                 (Response 200 True ''User updated successfully''
                    (UserData (User_ID user) (User_Phone user)), db'))
          else
            (Response 200 True ''User updated successfully''
               (UserData (User_ID user) (User_Phone user)), db'))"

definition UpdateUser ::
  "env \<Rightarrow> go_time \<Rightarrow> DB \<Rightarrow> uuid option \<Rightarrow> UpdateUserRequest option \<Rightarrow> string option
     \<Rightarrow> response \<times> DB" where
  "UpdateUser e now db idParam body assign =
     (case idParam of
        None \<Rightarrow> (Response 400 False ''Invalid user ID format'' NoData, db)
      | Some userID \<Rightarrow>
          (case body of
             None \<Rightarrow> (Response 400 False ''Invalid request body'' NoData, db)
           | Some req \<Rightarrow>
               if UpdateUserRequest_Password req \<noteq> [] \<and>
                  length (UpdateUserRequest_Password req) < 6 then
                 (Response 400 False ''Password must be at least 6 characters long'' NoData, db)
               else
                 (case First_User (\<lambda>u. User_ID u = userID) db of
                    Inl err \<Rightarrow> (Response 404 False ''User not found'' NoData, db)
                  | Inr user \<Rightarrow>
                      (case UpdateUser_phone db req user of
                         Inl resp \<Rightarrow> (resp, db)
                       | Inr user1 \<Rightarrow>
                           (case UpdateUser_password e req user1 of
                              Inl resp \<Rightarrow> (resp, db)
                            | Inr user2 \<Rightarrow>
                                UpdateUser_save now db req assign
                                  (UpdateUser_phone_changed req user2))))))"

section \<open>Auxiliary definitions\<close>

text \<open>
  The row \<^verbatim>\<open>Login\<close> hands to \<^verbatim>\<open>Save\<close>, with the timestamp \<^verbatim>\<open>Save\<close> sets:
  \<open>d\<close> is the device id of the request.
\<close>

definition login_user :: "User \<Rightarrow> string \<Rightarrow> go_time \<Rightarrow> User" where
  "login_user user d now =
     (let user1 = (if d = [] \<or> (User_CurrentDeviceID user \<noteq> [] \<and> User_CurrentDeviceID user \<noteq> d)
                   then user\<lparr>User_TokenVersion := User_TokenVersion user + 1\<rparr> else user);
          user2 = (if d \<noteq> [] then user1\<lparr>User_CurrentDeviceID := d\<rparr> else user1)
      in user2\<lparr>User_UpdatedAt := now\<rparr>)"


text \<open>
  The claim structures \<^verbatim>\<open>generateToken\<close> and \<^verbatim>\<open>GenerateAdminToken\<close> build
  before they sign.
\<close>

definition minted_Claims ::
  "go_time \<Rightarrow> uuid \<Rightarrow> string \<Rightarrow> go_int \<Rightarrow> TokenType \<Rightarrow> duration \<Rightarrow> Claims" where
  "minted_Claims now userID phone tokenVersion tokenType expiry =
     \<lparr>Claims_UserID = userID, Claims_Phone = phone,
      Claims_TokenType = tokenType, Claims_TokenVersion = tokenVersion,
      Claims_ExpiresAt = Some (NewNumericDate (now + expiry)),
      Claims_IssuedAt = Some (NewNumericDate now),
      Claims_NotBefore = Some (NewNumericDate now)\<rparr>"

definition minted_AdminClaims ::
  "go_time \<Rightarrow> uuid \<Rightarrow> string \<Rightarrow> string \<Rightarrow> go_int \<Rightarrow> AdminClaims" where
  "minted_AdminClaims now adminID username role tokenVersion =
     \<lparr>AdminClaims_AdminID = adminID, AdminClaims_Username = username,
      AdminClaims_Role = role, AdminClaims_TokenType = AdminToken,
      AdminClaims_TokenVersion = tokenVersion,
      AdminClaims_ExpiresAt = None,
      AdminClaims_IssuedAt = Some (NewNumericDate now),
      AdminClaims_NotBefore = Some (NewNumericDate now)\<rparr>"

text \<open>
  What is asked of the library for one token string: it decodes to the method HS256 and
  the claims object \<open>j\<close>, and its signature verifies under the configured secret.
\<close>

definition decodes_and_verifies :: "env \<Rightarrow> string \<Rightarrow> json_claims \<Rightarrow> bool" where
  "decodes_and_verifies e tok j =
     (case jwt_segments e tok of
        None \<Rightarrow> False
      | Some (m, j', sig) \<Rightarrow>
          m = SigningMethodHS256 \<and> j' = j \<and> jwt_Verify e m j' sig (Secret (AppConfig_JWT e)))"

text \<open>
  Reading the store the way the guards do: the token version and the device of the row
  \<^verbatim>\<open>First\<close> finds for a primary key.
\<close>

definition stored_user_version :: "DB \<Rightarrow> uuid \<Rightarrow> go_int option" where
  "stored_user_version db i =
     (case First_User (\<lambda>u. User_ID u = i) db of
        Inl err \<Rightarrow> None
      | Inr u \<Rightarrow> Some (User_TokenVersion u))"

definition stored_user_device :: "DB \<Rightarrow> uuid \<Rightarrow> string option" where
  "stored_user_device db i =
     (case First_User (\<lambda>u. User_ID u = i) db of
        Inl err \<Rightarrow> None
      | Inr u \<Rightarrow> Some (User_CurrentDeviceID u))"

definition stored_admin_version :: "DB \<Rightarrow> uuid \<Rightarrow> go_int option" where
  "stored_admin_version db i =
     (case First_Admin (\<lambda>a. Admin_ID a = i) db of
        Inl err \<Rightarrow> None
      | Inr a \<Rightarrow> Some (Admin_TokenVersion a))"

text \<open>
  The query string of a login: none, or \<^verbatim>\<open>?deviceId=d\<close>.
\<close>

definition no_query :: "string \<Rightarrow> string" where
  "no_query k = []"

definition device_query :: "string \<Rightarrow> string \<Rightarrow> string" where
  "device_query d k = (if k = ''deviceId'' then d else [])"

text \<open>
  A concrete environment and store for exhibiting the theorems: a configuration with the
  default expiry times; library functions that sign a claims object to the token
  \<open>''atok''\<close> when its type is \<open>admin\<close>, to \<open>''rtok''\<close> when it is \<open>refresh\<close> and to
  \<open>''tok''\<close> otherwise, followed by one \<open>+\<close> for each unit of the token version, and
  that decode the three tokens of version 0 to the example claims below; and a store
  with one user and one admin.
\<close>

definition example_claims :: json_claims where
  "example_claims =
     \<lparr>json_id = 1, json_phone = ''+77771234567'', json_username = [], json_role = [],
      json_token_type = ''access'', json_token_version = 0,
      json_exp = Some 901000000000, json_iat = Some 1000000000, json_nbf = Some 1000000000\<rparr>"

definition example_refresh_claims :: json_claims where
  "example_refresh_claims =
     \<lparr>json_id = 1, json_phone = ''+77771234567'', json_username = [], json_role = [],
      json_token_type = ''refresh'', json_token_version = 0,
      json_exp = Some 2592001000000000, json_iat = Some 1000000000,
      json_nbf = Some 1000000000\<rparr>"

definition example_admin_claims :: json_claims where
  "example_admin_claims =
     \<lparr>json_id = 2, json_phone = [], json_username = ''admin'', json_role = ''super'',
      json_token_type = ''admin'', json_token_version = 0,
      json_exp = None, json_iat = Some 1000000000, json_nbf = Some 1000000000\<rparr>"

definition example_env :: env where
  "example_env =
     \<lparr>AppConfig_JWT = \<lparr>Secret = ''test-secret-key'', AccessExpiry = 900000000000,
                         RefreshExpiry = 2592000000000000\<rparr>,
      jwt_SignedString =
        (\<lambda>m j key. Inr ((if json_token_type j = ''admin'' then ''atok''
                           else if json_token_type j = ''refresh'' then ''rtok''
                           else ''tok'') @
                          replicate (unat (json_token_version j)) CHR ''+'')),
      jwt_segments =
        (\<lambda>s. if s = ''tok'' then Some (SigningMethodHS256, example_claims, ''sig'')
             else if s = ''rtok'' then Some (SigningMethodHS256, example_refresh_claims, ''sig'')
             else if s = ''atok'' then Some (SigningMethodHS256, example_admin_claims, ''sig'')
             else None),
      jwt_Verify = (\<lambda>m j sig key. sig = ''sig'' \<and> key = ''test-secret-key''),
      bcrypt_GenerateFromPassword = (\<lambda>pw. Inr (''$2a$10$'' @ pw)),
      bcrypt_CompareHashAndPassword = (\<lambda>h pw. h = ''$2a$10$'' @ pw)\<rparr>"

definition example_user :: User where
  "example_user =
     \<lparr>User_ID = 1, User_Phone = ''+77771234567'', User_Password = ''$2a$10$password123'',
      User_TokenVersion = 0, User_CurrentDeviceID = [], User_CreatedAt = 0,
      User_UpdatedAt = 0, User_DeletedAt = None\<rparr>"

definition example_admin :: Admin where
  "example_admin =
     \<lparr>Admin_ID = 2, Admin_Username = ''admin'', Admin_Password = ''$2a$10$adminpass'',
      Admin_Role = ''super'', Admin_TokenVersion = 0, Admin_CreatedAt = 0,
      Admin_UpdatedAt = 0, Admin_DeletedAt = None\<rparr>"

definition example_db :: DB where
  "example_db = \<lparr>DB_users = [example_user], DB_admins = [example_admin]\<rparr>"

text \<open>The example store after the user's token version has moved on to 1.\<close>

definition example_db_bumped :: DB where
  "example_db_bumped =
     \<lparr>DB_users = [example_user\<lparr>User_TokenVersion := 1\<rparr>], DB_admins = [example_admin]\<rparr>"

text \<open>The example store after its user and its admin have been soft-deleted.\<close>

definition example_db_deleted :: DB where
  "example_db_deleted =
     \<lparr>DB_users = [example_user\<lparr>User_DeletedAt := Some 500000000\<rparr>],
      DB_admins = [example_admin\<lparr>Admin_DeletedAt := Some 500000000\<rparr>]\<rparr>"

text \<open>The example store after the admin's token version has moved on to 1.\<close>

definition example_db_admin_bumped :: DB where
  "example_db_admin_bumped =
     \<lparr>DB_users = [example_user], DB_admins = [example_admin\<lparr>Admin_TokenVersion := 1\<rparr>]\<rparr>"


section \<open>Properties of the store\<close>

lemma least_by_None_iff: "least_by pk xs = None \<longleftrightarrow> xs = []"
  by (induction xs) (auto split: option.splits)

lemma least_by_mem: "least_by pk xs = Some y \<Longrightarrow> y \<in> set xs"
  by (induction xs arbitrary: y) (auto split: option.splits if_splits)

lemma least_by_le: "least_by pk xs = Some y \<Longrightarrow> x \<in> set xs \<Longrightarrow> pk y \<le> pk x"
  by (induction xs arbitrary: y) (auto split: option.splits if_splits simp: least_by_None_iff)

lemma First_row_Inr_iff:
  "First_row pk deleted cond rows = Inr r \<longleftrightarrow>
     least_by pk (filter (\<lambda>r. deleted r = None \<and> cond r) rows) = Some r"
  by (simp add: First_row_def split: option.splits)

lemma First_row_InrD:
  assumes "First_row pk deleted cond rows = Inr r"
  shows "r \<in> set rows" "deleted r = None" "cond r"
  using least_by_mem [of pk "filter (\<lambda>r. deleted r = None \<and> cond r) rows" r] assms
  by (auto simp: First_row_Inr_iff)

lemma First_row_least:
  assumes "First_row pk deleted cond rows = Inr r" "x \<in> set rows" "deleted x = None" "cond x"
  shows "pk r \<le> pk x"
  using least_by_le [of pk "filter (\<lambda>r. deleted r = None \<and> cond r) rows" r x] assms
  by (auto simp: First_row_Inr_iff)

lemma First_row_Inl_iff:
  "(\<exists>err. First_row pk deleted cond rows = Inl err) \<longleftrightarrow>
     (\<forall>x \<in> set rows. \<not> (deleted x = None \<and> cond x))"
proof -
  have "(\<exists>err. First_row pk deleted cond rows = Inl err) \<longleftrightarrow>
          least_by pk (filter (\<lambda>r. deleted r = None \<and> cond r) rows) = None"
    by (simp add: First_row_def split: option.splits)
  then show ?thesis by (simp add: least_by_None_iff filter_empty_conv)
qed

lemma Save_rows_live:
  assumes "r \<in> set rows" "pk r = pk u" "deleted r = None"
  shows "Save_rows pk deleted u rows =
           map (\<lambda>r. if pk r = pk u \<and> deleted r = None then u else r) rows"
  using assms by (auto simp: Save_rows_def)

lemma First_row_Save_rows:
  assumes first: "First_row pk deleted cond rows = Inr r"
    and u: "pk u = pk r" "deleted u = None" "cond u"
  shows "First_row pk deleted cond (Save_rows pk deleted u rows) = Inr u"
proof -
  let ?P = "\<lambda>r. deleted r = None \<and> cond r"
  let ?f = "\<lambda>r. if pk r = pk u \<and> deleted r = None then u else r"
  note r = First_row_InrD [OF first]
  have save: "Save_rows pk deleted u rows = map ?f rows"
    using r u by (intro Save_rows_live [of r]) auto
  have u_in: "u \<in> set (filter ?P (map ?f rows))"
    using r u by (auto simp: image_iff intro!: bexI [of _ r])
  then have "least_by pk (filter ?P (map ?f rows)) \<noteq> None"
    unfolding least_by_None_iff by (metis empty_iff empty_set)
  then obtain y where y: "least_by pk (filter ?P (map ?f rows)) = Some y"
    by blast
  have y_in: "y \<in> set (filter ?P (map ?f rows))" by (rule least_by_mem [OF y])
  have y_le: "pk y \<le> pk u" by (rule least_by_le [OF y u_in])
  have "y = u"
  proof (rule ccontr)
    assume neq: "y \<noteq> u"
    from y_in obtain x where x: "x \<in> set rows" "y = ?f x" "?P y" by auto
    with neq have yx: "y = x" and nx: "\<not> (pk x = pk u \<and> deleted x = None)"
      by (auto split: if_splits)
    from x yx have "deleted x = None" "cond x" by auto
    with nx First_row_least [OF first x(1)] have "pk r \<le> pk x" "pk x \<noteq> pk u" by auto
    with y_le yx u show False by auto
  qed
  with y show ?thesis by (simp add: First_row_def save)
qed

lemma filter_map_replace_other:
  assumes "\<And>x. P x \<Longrightarrow> pk x \<noteq> pk u" "\<And>x. Q x \<Longrightarrow> pk x = pk u"
  shows "filter P (map (\<lambda>r. if Q r then u else r) rows) = filter P rows"
  using assms by (induction rows) auto

lemma filter_Save_rows_other:
  assumes "\<And>x. P x \<Longrightarrow> pk x \<noteq> pk u"
  shows "filter P (Save_rows pk deleted u rows) = filter P rows"
proof -
  have a: "filter P (map (\<lambda>r. if pk r = pk u \<and> deleted r = None then u else r) rows) =
           filter P rows"
    by (rule filter_map_replace_other [where pk = pk]) (auto simp: assms)
  have b: "filter P (map (\<lambda>r. if pk r = pk u then u else r) rows) = filter P rows"
    by (rule filter_map_replace_other [where pk = pk]) (auto simp: assms)
  have c: "\<not> P u" using assms by auto
  show ?thesis unfolding Save_rows_def using a b c by simp
qed

lemma First_row_Save_rows_other:
  assumes "\<And>x. cond x \<Longrightarrow> pk x \<noteq> pk u"
  shows "First_row pk deleted cond (Save_rows pk deleted u rows) = First_row pk deleted cond rows"
proof -
  have "filter (\<lambda>r. deleted r = None \<and> cond r) (Save_rows pk deleted u rows) =
        filter (\<lambda>r. deleted r = None \<and> cond r) rows"
    by (rule filter_Save_rows_other) (simp add: assms)
  then show ?thesis by (simp add: First_row_def)
qed



section \<open>Login\<close>

lemma Save_User_live:
  assumes "User_DeletedAt u = None"
  shows "Save_User now u db =
           Inr (db\<lparr>DB_users := Save_rows User_ID User_DeletedAt (u\<lparr>User_UpdatedAt := now\<rparr>)
                                  (DB_users db)\<rparr>)"
  using assms by (simp add: Save_User_def index_conflict_def)

lemma Save_Admin_live:
  assumes "Admin_DeletedAt a = None"
  shows "Save_Admin now a db =
           Inr (db\<lparr>DB_admins := Save_rows Admin_ID Admin_DeletedAt (a\<lparr>Admin_UpdatedAt := now\<rparr>)
                                   (DB_admins db)\<rparr>)"
  using assms by (simp add: Save_Admin_def index_conflict_def)

lemma First_User_Save:
  assumes "First_User cond db = Inr r" "User_ID u = User_ID r" "User_DeletedAt u = None" "cond u"
  shows "First_User cond (db\<lparr>DB_users := Save_rows User_ID User_DeletedAt u (DB_users db)\<rparr>) = Inr u"
  using assms First_row_Save_rows [of User_ID User_DeletedAt cond "DB_users db" r u]
  by (simp add: First_User_def)

lemma First_row_live_row:
  assumes "x \<in> set rows" "deleted x = None" "cond x"
  shows "\<exists>r. First_row pk deleted cond rows = Inr r"
proof (cases "First_row pk deleted cond rows")
  case (Inl err)
  then have "\<exists>err. First_row pk deleted cond rows = Inl err" by blast
  then show ?thesis using assms unfolding First_row_Inl_iff by blast
next
  case (Inr r)
  then show ?thesis by blast
qed

lemma First_User_by_ID:
  assumes "First_User cond db = Inr user"
  shows "\<exists>r. First_User (\<lambda>u. User_ID u = User_ID user) db = Inr r \<and> User_ID r = User_ID user"
proof -
  have "user \<in> set (DB_users db)" "User_DeletedAt user = None"
    using First_row_InrD [OF assms [unfolded First_User_def]] by auto
  then obtain r where r: "First_row User_ID User_DeletedAt (\<lambda>u. User_ID u = User_ID user) (DB_users db) = Inr r"
    using First_row_live_row [of user "DB_users db" User_DeletedAt "\<lambda>u. User_ID u = User_ID user" User_ID]
    by auto
  then show ?thesis using First_row_InrD(3) [OF r] by (simp add: First_User_def)
qed

lemma GenerateTokens_total:
  assumes "\<forall>j. \<exists>t. jwt_SignedString e SigningMethodHS256 j (Secret (AppConfig_JWT e)) = Inr t"
  shows "\<exists>a r. generateToken e now i p v AccessToken (AccessExpiry (AppConfig_JWT e)) = Inr a \<and>
               generateToken e now i p v RefreshToken (RefreshExpiry (AppConfig_JWT e)) = Inr r \<and>
               GenerateTokens e now i p v =
                 Inr \<lparr>TokenPair_AccessToken = a, TokenPair_RefreshToken = r\<rparr>"
proof -
  obtain a where a: "generateToken e now i p v AccessToken (AccessExpiry (AppConfig_JWT e)) = Inr a"
    using assms unfolding generateToken_def Let_def by blast
  obtain r where r: "generateToken e now i p v RefreshToken (RefreshExpiry (AppConfig_JWT e)) = Inr r"
    using assms unfolding generateToken_def Let_def by blast
  show ?thesis using a r by (simp add: GenerateTokens_def)
qed

lemma login_user_fields:
  "User_TokenVersion (login_user user d now) =
     (if d = [] \<or> (User_CurrentDeviceID user \<noteq> [] \<and> User_CurrentDeviceID user \<noteq> d)
      then User_TokenVersion user + 1 else User_TokenVersion user)"
  "User_CurrentDeviceID (login_user user d now) = (if d \<noteq> [] then d else User_CurrentDeviceID user)"
  "User_ID (login_user user d now) = User_ID user"
  "User_Phone (login_user user d now) = User_Phone user"
  "User_Password (login_user user d now) = User_Password user"
  "User_DeletedAt (login_user user d now) = User_DeletedAt user"
  by (simp_all add: login_user_def Let_def)

lemma Login_step:
  assumes fmt: "phoneRegex_MatchString phone"
    and found: "First_User (\<lambda>u. User_Phone u = phone) db = Inr user"
    and pw: "User_CheckPassword e user password"
    and sign: "\<forall>j. \<exists>t. jwt_SignedString e SigningMethodHS256 j (Secret (AppConfig_JWT e)) = Inr t"
    and d: "d = (if Query ''deviceId'' = [] then Query ''device_id'' else Query ''deviceId'')"
    and u': "user' = login_user user d now"
  shows "\<exists>access refresh db'.
      Login e now db (Some (LoginRequest phone password)) Query =
        (Response 200 True ''Login successful''
           (LoginData (User_ID user) phone access refresh), db') \<and>
      generateToken e now (User_ID user) phone (User_TokenVersion user') AccessToken
          (AccessExpiry (AppConfig_JWT e)) = Inr access \<and>
      generateToken e now (User_ID user) phone (User_TokenVersion user') RefreshToken
          (RefreshExpiry (AppConfig_JWT e)) = Inr refresh \<and>
      First_User (\<lambda>u. User_ID u = User_ID user) db' = Inr user' \<and>
      First_User (\<lambda>u. User_Phone u = phone) db' = Inr user'"
proof -
  have live: "User_DeletedAt user = None" and ph: "User_Phone user = phone"
    using First_row_InrD [OF found [unfolded First_User_def]] by auto
  let ?v = "User_TokenVersion user'"
  obtain a r where a: "generateToken e now (User_ID user) phone ?v AccessToken
                          (AccessExpiry (AppConfig_JWT e)) = Inr a"
    and r: "generateToken e now (User_ID user) phone ?v RefreshToken
               (RefreshExpiry (AppConfig_JWT e)) = Inr r"
    and g: "GenerateTokens e now (User_ID user) phone ?v =
              Inr \<lparr>TokenPair_AccessToken = a, TokenPair_RefreshToken = r\<rparr>"
    using GenerateTokens_total [OF sign] by blast
  let ?db' = "db\<lparr>DB_users := Save_rows User_ID User_DeletedAt user' (DB_users db)\<rparr>"
  obtain r0 where byid: "First_User (\<lambda>u. User_ID u = User_ID user) db = Inr r0"
    and r0: "User_ID r0 = User_ID user"
    using First_User_by_ID [OF found] by blast
  have "Login e now db (Some (LoginRequest phone password)) Query =
        (Response 200 True ''Login successful'' (LoginData (User_ID user) phone a r), ?db')"
    using fmt found pw g [unfolded u' login_user_fields] live ph
    by (cases "d = []"; cases "User_CurrentDeviceID user = []";
        cases "User_CurrentDeviceID user = d";
        simp add: Login_def Let_def d [symmetric] u' login_user_def Save_User_live)
  moreover have "First_User (\<lambda>u. User_Phone u = phone) ?db' = Inr user'"
    using found live ph by (intro First_User_Save [of _ _ user]) (auto simp: u' login_user_fields)
  moreover have "First_User (\<lambda>u. User_ID u = User_ID user) ?db' = Inr user'"
    using byid r0 live by (intro First_User_Save [of _ _ r0]) (auto simp: u' login_user_fields)
  ultimately show ?thesis using a r by blast
qed


lemma Login_step_fields:
  assumes fmt: "phoneRegex_MatchString phone"
    and found: "First_User (\<lambda>u. User_Phone u = phone) db = Inr user"
    and pw: "User_CheckPassword e user password"
    and sign: "\<forall>j. \<exists>t. jwt_SignedString e SigningMethodHS256 j (Secret (AppConfig_JWT e)) = Inr t"
    and d: "d = (if Query ''deviceId'' = [] then Query ''device_id'' else Query ''deviceId'')"
  shows "\<exists>access refresh db' user'.
      Login e now db (Some (LoginRequest phone password)) Query =
        (Response 200 True ''Login successful''
           (LoginData (User_ID user) phone access refresh), db') \<and>
      generateToken e now (User_ID user) phone (User_TokenVersion user') AccessToken
          (AccessExpiry (AppConfig_JWT e)) = Inr access \<and>
      generateToken e now (User_ID user) phone (User_TokenVersion user') RefreshToken
          (RefreshExpiry (AppConfig_JWT e)) = Inr refresh \<and>
      First_User (\<lambda>u. User_ID u = User_ID user) db' = Inr user' \<and>
      First_User (\<lambda>u. User_Phone u = phone) db' = Inr user' \<and>
      User_CheckPassword e user' password \<and> User_ID user' = User_ID user \<and>
      User_TokenVersion user' =
        (if d = [] \<or> (User_CurrentDeviceID user \<noteq> [] \<and> User_CurrentDeviceID user \<noteq> d)
         then User_TokenVersion user + 1 else User_TokenVersion user) \<and>
      User_CurrentDeviceID user' = (if d \<noteq> [] then d else User_CurrentDeviceID user)"
proof -
  have c: "User_CheckPassword e (login_user user d now) password"
    using pw by (simp add: User_CheckPassword_def login_user_fields)
  obtain access refresh db' where
    "Login e now db (Some (LoginRequest phone password)) Query =
        (Response 200 True ''Login successful''
           (LoginData (User_ID user) phone access refresh), db')"
    "generateToken e now (User_ID user) phone (User_TokenVersion (login_user user d now))
       AccessToken (AccessExpiry (AppConfig_JWT e)) = Inr access"
    "generateToken e now (User_ID user) phone (User_TokenVersion (login_user user d now))
       RefreshToken (RefreshExpiry (AppConfig_JWT e)) = Inr refresh"
    "First_User (\<lambda>u. User_ID u = User_ID user) db' = Inr (login_user user d now)"
    "First_User (\<lambda>u. User_Phone u = phone) db' = Inr (login_user user d now)"
    using Login_step [OF fmt found pw sign d refl, of now] by blast
  then show ?thesis
    using c
    by (intro exI [of _ access] exI [of _ refresh] exI [of _ db']
          exI [of _ "login_user user d now"])
       (simp add: login_user_fields)
qed



lemma Login_stepE:
  assumes fmt: "phoneRegex_MatchString phone"
    and found: "First_User (\<lambda>u. User_Phone u = phone) db = Inr user"
    and pw: "User_CheckPassword e user password"
    and sign: "\<forall>j. \<exists>t. jwt_SignedString e SigningMethodHS256 j (Secret (AppConfig_JWT e)) = Inr t"
    and d: "d = (if Query ''deviceId'' = [] then Query ''device_id'' else Query ''deviceId'')"
  obtains access refresh db' user' where
      "Login e now db (Some (LoginRequest phone password)) Query =
        (Response 200 True ''Login successful''
           (LoginData (User_ID user) phone access refresh), db')"
      "generateToken e now (User_ID user) phone (User_TokenVersion user') AccessToken
          (AccessExpiry (AppConfig_JWT e)) = Inr access"
      "generateToken e now (User_ID user) phone (User_TokenVersion user') RefreshToken
          (RefreshExpiry (AppConfig_JWT e)) = Inr refresh"
      "First_User (\<lambda>u. User_ID u = User_ID user) db' = Inr user'"
      "First_User (\<lambda>u. User_Phone u = phone) db' = Inr user'"
      "User_CheckPassword e user' password" "User_ID user' = User_ID user"
      "User_TokenVersion user' =
        (if d = [] \<or> (User_CurrentDeviceID user \<noteq> [] \<and> User_CurrentDeviceID user \<noteq> d)
         then User_TokenVersion user + 1 else User_TokenVersion user)"
      "User_CurrentDeviceID user' = (if d \<noteq> [] then d else User_CurrentDeviceID user)"
  using Login_step_fields [OF fmt found pw sign d, of now]
  by (elim exE conjE) (erule that; assumption)







section \<open>Evaluation at the example store\<close>

lemmas example_defs = example_env_def example_db_def example_user_def example_admin_def
  example_claims_def example_refresh_claims_def example_admin_claims_def

lemmas eval_defs = Login_def First_User_def First_row_def Save_User_def Save_rows_def
  index_conflict_def GenerateTokens_def generateToken_def User_CheckPassword_def
  stored_user_version_def stored_user_device_def device_query_def no_query_def Let_def
  marshal_Claims_def AccessToken_def RefreshToken_def AdminToken_def

text \<open>
  Claim C2 (as stated, refuted).  The user of the example store is at version 0 with no
  stored device.  A login with device id \<open>A\<close> succeeds and stores the device, and the
  stored version is still 0, not 1: \<^verbatim>\<open>deviceChanged\<close> requires a stored device.
\<close>

theorem C2_counterexample:
  "stored_user_version example_db 1 = Some 0 \<and>
   stored_user_device example_db 1 = Some [] \<and>
   fst (Login example_env 1000000000 example_db
          (Some (LoginRequest ''+77771234567'' ''password123'')) (device_query ''A'')) =
     Response 200 True ''Login successful'' (LoginData 1 ''+77771234567'' ''tok'' ''rtok'') \<and>
   stored_user_version
     (snd (Login example_env 1000000000 example_db
             (Some (LoginRequest ''+77771234567'' ''password123'')) (device_query ''A''))) 1 =
     Some 0 \<and>
   stored_user_device
     (snd (Login example_env 1000000000 example_db
             (Some (LoginRequest ''+77771234567'' ''password123'')) (device_query ''A''))) 1 =
     Some ''A''"
  by (simp add: eval_defs example_defs)

text \<open>
  Claim C2, amended.  For a user with no stored device, a first successful login that
  supplies a device id leaves the stored version as it was and stores the device id; a
  second successful login with the same device id leaves the version unchanged again.
\<close>

theorem C2_first_device_login_keeps_version:
  assumes fmt: "phoneRegex_MatchString phone"
    and found: "First_User (\<lambda>u. User_Phone u = phone) db = Inr user"
    and pw: "User_CheckPassword e user password"
    and sign: "\<forall>j. \<exists>t. jwt_SignedString e SigningMethodHS256 j (Secret (AppConfig_JWT e)) = Inr t"
    and d: "d = (if Query ''deviceId'' = [] then Query ''device_id'' else Query ''deviceId'')"
    and supplied: "d \<noteq> []"
    and nodev: "User_CurrentDeviceID user = []"
  shows "\<exists>a1 r1 db1 a2 r2 db2.
      Login e now db (Some (LoginRequest phone password)) Query =
        (Response 200 True ''Login successful'' (LoginData (User_ID user) phone a1 r1), db1) \<and>
      stored_user_version db1 (User_ID user) = Some (User_TokenVersion user) \<and>
      stored_user_device db1 (User_ID user) = Some d \<and>
      Login e now_b db1 (Some (LoginRequest phone password)) Query =
        (Response 200 True ''Login successful'' (LoginData (User_ID user) phone a2 r2), db2) \<and>
      stored_user_version db2 (User_ID user) = Some (User_TokenVersion user) \<and>
      stored_user_device db2 (User_ID user) = Some d"
proof -
  obtain a1 r1 db1 u1 where s1:
      "Login e now db (Some (LoginRequest phone password)) Query =
        (Response 200 True ''Login successful''
           (LoginData (User_ID user) phone a1 r1), db1)"
      "generateToken e now (User_ID user) phone (User_TokenVersion u1) AccessToken
          (AccessExpiry (AppConfig_JWT e)) = Inr a1"
      "generateToken e now (User_ID user) phone (User_TokenVersion u1) RefreshToken
          (RefreshExpiry (AppConfig_JWT e)) = Inr r1"
      "First_User (\<lambda>u. User_ID u = User_ID user) db1 = Inr u1"
      "First_User (\<lambda>u. User_Phone u = phone) db1 = Inr u1"
      "User_CheckPassword e u1 password" "User_ID u1 = User_ID user"
      "User_TokenVersion u1 =
        (if d = [] \<or> (User_CurrentDeviceID user \<noteq> [] \<and> User_CurrentDeviceID user \<noteq> d)
         then User_TokenVersion user + 1 else User_TokenVersion user)"
      "User_CurrentDeviceID u1 = (if d \<noteq> [] then d else User_CurrentDeviceID user)"
    by (rule Login_stepE [OF fmt found pw sign d, of now])
  have v1: "User_TokenVersion u1 = User_TokenVersion user" and d1: "User_CurrentDeviceID u1 = d"
    using s1(8,9) supplied nodev by simp_all
  obtain a2 r2 db2 u2 where s2:
      "Login e now_b db1 (Some (LoginRequest phone password)) Query =
        (Response 200 True ''Login successful''
           (LoginData (User_ID u1) phone a2 r2), db2)"
      "generateToken e now_b (User_ID u1) phone (User_TokenVersion u2) AccessToken
          (AccessExpiry (AppConfig_JWT e)) = Inr a2"
      "generateToken e now_b (User_ID u1) phone (User_TokenVersion u2) RefreshToken
          (RefreshExpiry (AppConfig_JWT e)) = Inr r2"
      "First_User (\<lambda>u. User_ID u = User_ID u1) db2 = Inr u2"
      "First_User (\<lambda>u. User_Phone u = phone) db2 = Inr u2"
      "User_CheckPassword e u2 password" "User_ID u2 = User_ID u1"
      "User_TokenVersion u2 =
        (if d = [] \<or> (User_CurrentDeviceID u1 \<noteq> [] \<and> User_CurrentDeviceID u1 \<noteq> d)
         then User_TokenVersion u1 + 1 else User_TokenVersion u1)"
      "User_CurrentDeviceID u2 = (if d \<noteq> [] then d else User_CurrentDeviceID u1)"
    by (rule Login_stepE [OF fmt s1(5) s1(6) sign d, of now_b])
  have v2: "User_TokenVersion u2 = User_TokenVersion user" and d2: "User_CurrentDeviceID u2 = d"
    using s2(8,9) supplied v1 d1 by simp_all
  have sv1: "stored_user_version db1 (User_ID user) = Some (User_TokenVersion user)"
    and sd1: "stored_user_device db1 (User_ID user) = Some d"
    using s1(4) v1 d1 by (simp_all add: stored_user_version_def stored_user_device_def)
  have sv2: "stored_user_version db2 (User_ID user) = Some (User_TokenVersion user)"
    and sd2: "stored_user_device db2 (User_ID user) = Some d"
    using s2(4) [unfolded s1(7)] v2 d2
    by (simp_all add: stored_user_version_def stored_user_device_def)
  show ?thesis
    by (rule exI [of _ a1], rule exI [of _ r1], rule exI [of _ db1],
        rule exI [of _ a2], rule exI [of _ r2], rule exI [of _ db2],
        insert s1(1) sv1 sd1 s2(1) [unfolded s1(7)] sv2 sd2, intro conjI; assumption)
qed

text \<open>The amended C2 at the example store: version 0 stays 0 after the login with \<open>A\<close>.\<close>

theorem C2_first_device_login_keeps_version_witness:
  "phoneRegex_MatchString ''+77771234567'' \<and>
   First_User (\<lambda>u. User_Phone u = ''+77771234567'') example_db = Inr example_user \<and>
   User_CheckPassword example_env example_user ''password123'' \<and>
   User_CurrentDeviceID example_user = [] \<and>
   stored_user_version
     (snd (Login example_env 1000000000 example_db
             (Some (LoginRequest ''+77771234567'' ''password123'')) (device_query ''A''))) 1 =
     Some 0"
proof -
  have h1: "phoneRegex_MatchString ''+77771234567''" by simp
  have h2: "First_User (\<lambda>u. User_Phone u = ''+77771234567'') example_db = Inr example_user"
    by (simp add: First_User_def First_row_def example_db_def example_user_def)
  have h3: "User_CheckPassword example_env example_user ''password123''"
    by (simp add: User_CheckPassword_def example_env_def example_user_def)
  have h4: "\<forall>j. \<exists>t. jwt_SignedString example_env SigningMethodHS256 j
                       (Secret (AppConfig_JWT example_env)) = Inr t"
    by (simp add: example_env_def)
  have h5: "''A'' = (if device_query ''A'' ''deviceId'' = [] then device_query ''A'' ''device_id''
                    else device_query ''A'' ''deviceId'')"
    by (simp add: device_query_def)
  have h6: "''A'' \<noteq> []" by simp
  have h7: "User_CurrentDeviceID example_user = []" by (simp add: example_user_def)
  from C2_first_device_login_keeps_version [where now = 1000000000 and now_b = 2000000000,
      OF h1 h2 h3 h4 h5 h6 h7]
  obtain a1 r1 db1 where
    "Login example_env 1000000000 example_db
        (Some (LoginRequest ''+77771234567'' ''password123'')) (device_query ''A'') =
        (Response 200 True ''Login successful''
           (LoginData (User_ID example_user) ''+77771234567'' a1 r1), db1)"
    "stored_user_version db1 (User_ID example_user) = Some (User_TokenVersion example_user)"
    by blast
  then have "stored_user_version
     (snd (Login example_env 1000000000 example_db
             (Some (LoginRequest ''+77771234567'' ''password123'')) (device_query ''A''))) 1 =
     Some 0"
    by (simp add: example_user_def)
  with h1 h2 h3 h7 show ?thesis by blast
qed


section \<open>Admin login\<close>

lemma First_Admin_Save:
  assumes "First_Admin cond db = Inr r" "Admin_ID a = Admin_ID r" "Admin_DeletedAt a = None" "cond a"
  shows "First_Admin cond (db\<lparr>DB_admins := Save_rows Admin_ID Admin_DeletedAt a (DB_admins db)\<rparr>) = Inr a"
  using assms First_row_Save_rows [of Admin_ID Admin_DeletedAt cond "DB_admins db" r a]
  by (simp add: First_Admin_def)

lemma First_Admin_by_ID:
  assumes "First_Admin cond db = Inr admin"
  shows "\<exists>r. First_Admin (\<lambda>a. Admin_ID a = Admin_ID admin) db = Inr r \<and> Admin_ID r = Admin_ID admin"
proof -
  have "admin \<in> set (DB_admins db)" "Admin_DeletedAt admin = None"
    using First_row_InrD [OF assms [unfolded First_Admin_def]] by auto
  then obtain r where r: "First_row Admin_ID Admin_DeletedAt (\<lambda>a. Admin_ID a = Admin_ID admin) (DB_admins db) = Inr r"
    using First_row_live_row [of admin "DB_admins db" Admin_DeletedAt "\<lambda>a. Admin_ID a = Admin_ID admin" Admin_ID]
    by auto
  then show ?thesis using First_row_InrD(3) [OF r] by (simp add: First_Admin_def)
qed

text \<open>
  Claim C3.  An admin login with non-empty credentials that finds the admin and passes
  the password check, in an environment whose signing does not fail, answers 200, leaves
  the admin's row with the version one more than before (whatever the request: there is
  no device in it), and returns the token \<open>GenerateAdminToken\<close> mints for that new
  version: the signed claims object has the admin's id, type \<open>admin\<close>, the new version
  and no \<^verbatim>\<open>exp\<close>.
\<close>

theorem C3_admin_login_increments_version:
  assumes user: "username \<noteq> []" and pass: "password \<noteq> []"
    and found: "First_Admin (\<lambda>a. Admin_Username a = username) db = Inr admin"
    and pw: "Admin_CheckPassword e admin password"
    and sign: "\<forall>j. \<exists>t. jwt_SignedString e SigningMethodHS256 j (Secret (AppConfig_JWT e)) = Inr t"
  shows "\<exists>token db' j.
      AdminLogin e now db (Some (AdminLoginRequest username password)) =
        (Response 200 True ''Login successful''
           (AdminLoginData (Admin_ID admin) username (Admin_Role admin) token), db') \<and>
      stored_admin_version db' (Admin_ID admin) = Some (Admin_TokenVersion admin + 1) \<and>
      GenerateAdminToken e now (Admin_ID admin) username (Admin_Role admin)
        (Admin_TokenVersion admin + 1) = Inr token \<and>
      jwt_SignedString e SigningMethodHS256 j (Secret (AppConfig_JWT e)) = Inr token \<and>
      json_id j = Admin_ID admin \<and> json_token_type j = AdminToken \<and>
      json_token_version j = Admin_TokenVersion admin + 1 \<and> json_exp j = None"
proof -
  have live: "Admin_DeletedAt admin = None" and un: "Admin_Username admin = username"
    using First_row_InrD [OF found [unfolded First_Admin_def]] by auto
  let ?a = "admin\<lparr>Admin_TokenVersion := Admin_TokenVersion admin + 1, Admin_UpdatedAt := now\<rparr>"
  let ?db' = "db\<lparr>DB_admins := Save_rows Admin_ID Admin_DeletedAt ?a (DB_admins db)\<rparr>"
  let ?j = "marshal_AdminClaims
              \<lparr>AdminClaims_AdminID = Admin_ID admin, AdminClaims_Username = username,
               AdminClaims_Role = Admin_Role admin, AdminClaims_TokenType = AdminToken,
               AdminClaims_TokenVersion = Admin_TokenVersion admin + 1,
               AdminClaims_ExpiresAt = None,
               AdminClaims_IssuedAt = Some (NewNumericDate now),
               AdminClaims_NotBefore = Some (NewNumericDate now)\<rparr>"
  obtain token where tok: "jwt_SignedString e SigningMethodHS256 ?j (Secret (AppConfig_JWT e)) = Inr token"
    using sign by blast
  then have gen: "GenerateAdminToken e now (Admin_ID admin) username (Admin_Role admin)
        (Admin_TokenVersion admin + 1) = Inr token"
    by (simp add: GenerateAdminToken_def)
  have login: "AdminLogin e now db (Some (AdminLoginRequest username password)) =
        (Response 200 True ''Login successful''
           (AdminLoginData (Admin_ID admin) username (Admin_Role admin) token), ?db')"
    using user pass found pw gen live un
    by (simp add: AdminLogin_def Let_def Save_Admin_live)
  obtain r0 where byid: "First_Admin (\<lambda>a. Admin_ID a = Admin_ID admin) db = Inr r0"
    and r0: "Admin_ID r0 = Admin_ID admin"
    using First_Admin_by_ID [OF found] by blast
  have "First_Admin (\<lambda>a. Admin_ID a = Admin_ID admin) ?db' = Inr ?a"
    using byid r0 live by (intro First_Admin_Save [of _ _ r0]) auto
  then have stored: "stored_admin_version ?db' (Admin_ID admin) = Some (Admin_TokenVersion admin + 1)"
    by (simp add: stored_admin_version_def)
  have j: "json_id ?j = Admin_ID admin" "json_token_type ?j = AdminToken"
    "json_token_version ?j = Admin_TokenVersion admin + 1" "json_exp ?j = None"
    by (simp_all add: marshal_AdminClaims_def)
  show ?thesis
    by (rule exI [of _ token], rule exI [of _ ?db'], rule exI [of _ ?j],
        insert login stored gen tok j, intro conjI; assumption)
qed

text \<open>C3 at the example store: the admin at version 0 is at version 1 after a login.\<close>

theorem C3_admin_login_increments_version_witness:
  "''admin'' \<noteq> [] \<and> ''adminpass'' \<noteq> [] \<and>
   First_Admin (\<lambda>a. Admin_Username a = ''admin'') example_db = Inr example_admin \<and>
   Admin_CheckPassword example_env example_admin ''adminpass'' \<and>
   stored_admin_version
     (snd (AdminLogin example_env 1000000000 example_db
             (Some (AdminLoginRequest ''admin'' ''adminpass'')))) 2 = Some 1"
proof -
  have h1: "''admin'' \<noteq> []" and h2: "''adminpass'' \<noteq> []" by simp_all
  have h3: "First_Admin (\<lambda>a. Admin_Username a = ''admin'') example_db = Inr example_admin"
    by (simp add: First_Admin_def First_row_def example_db_def example_admin_def)
  have h4: "Admin_CheckPassword example_env example_admin ''adminpass''"
    by (simp add: Admin_CheckPassword_def example_env_def example_admin_def)
  have h5: "\<forall>j. \<exists>t. jwt_SignedString example_env SigningMethodHS256 j
                       (Secret (AppConfig_JWT example_env)) = Inr t"
    by (simp add: example_env_def)
  from C3_admin_login_increments_version [where now = 1000000000, OF h1 h2 h3 h4 h5]
  obtain token db' where
    "AdminLogin example_env 1000000000 example_db (Some (AdminLoginRequest ''admin'' ''adminpass'')) =
        (Response 200 True ''Login successful''
           (AdminLoginData (Admin_ID example_admin) ''admin'' (Admin_Role example_admin) token), db')"
    "stored_admin_version db' (Admin_ID example_admin) = Some (Admin_TokenVersion example_admin + 1)"
    by blast
  then have "stored_admin_version
     (snd (AdminLogin example_env 1000000000 example_db
             (Some (AdminLoginRequest ''admin'' ''adminpass'')))) 2 = Some 1"
    by (simp add: example_admin_def)
  with h1 h2 h3 h4 show ?thesis by blast
qed


section \<open>Token codec\<close>

lemma NewNumericDate_le: "NewNumericDate t \<le> t"
  by (simp add: NewNumericDate_def TimePrecision_def)

lemma generateToken_eq:
  "generateToken e now userID phone v kind expiry =
     jwt_SignedString e SigningMethodHS256
       (marshal_Claims (minted_Claims now userID phone v kind expiry)) (Secret (AppConfig_JWT e))"
  by (simp add: generateToken_def minted_Claims_def Let_def)

lemma GenerateAdminToken_eq:
  "GenerateAdminToken e now adminID username role v =
     jwt_SignedString e SigningMethodHS256
       (marshal_AdminClaims (minted_AdminClaims now adminID username role v))
       (Secret (AppConfig_JWT e))"
  by (simp add: GenerateAdminToken_def minted_AdminClaims_def Let_def)

lemma ParseWithClaims_accepts:
  assumes "decodes_and_verifies e tok j" "Validate now j = None"
  shows "ParseWithClaims e now tok (keyFunc e) =
           Inr \<lparr>Token_Method = SigningMethodHS256, Token_Claims = j, Token_Valid = True\<rparr>"
  using assms
  by (auto simp: decodes_and_verifies_def ParseWithClaims_def keyFunc_def split: option.splits)


lemma Validate_minted_AdminClaims:
  assumes "now \<le> now'"
  shows "Validate now' (marshal_AdminClaims (minted_AdminClaims now adminID username role v)) = None"
  using assms NewNumericDate_le [of now]
  by (simp add: Validate_def marshal_AdminClaims_def minted_AdminClaims_def)


lemma unmarshal_marshal_AdminClaims: "unmarshal_AdminClaims (marshal_AdminClaims c) = c"
  by (simp add: unmarshal_AdminClaims_def marshal_AdminClaims_def)





section \<open>Refresh\<close>

lemma stored_user_version_First:
  assumes "stored_user_version db i = Some v"
  shows "\<exists>u. First_User_id_token_version i db = Inr u \<and> User_TokenVersion u = v"
  using assms
  by (auto simp: stored_user_version_def First_User_id_token_version_def
        Select_id_token_version_def split: sum.splits)

lemma ValidateToken_cases:
  "ValidateToken e now tok kind =
     (case jwt_segments e tok of
        None \<Rightarrow> Inl ErrTokenMalformed
      | Some (m, j, sig) \<Rightarrow>
          if \<not> is_SigningMethodHMAC m then Inl ErrTokenUnverifiable
          else if \<not> jwt_Verify e m j sig (Secret (AppConfig_JWT e))
            then Inl ErrTokenSignatureInvalid
          else (case Validate now j of
                  Some err \<Rightarrow> Inl err
                | None \<Rightarrow>
                    if json_token_type j \<noteq> kind then Inl (ErrorsNew ''invalid token type'')
                    else if json_exp j = None then Inl PanicNilDereference
                    else Inr (unmarshal_Claims j)))"
  by (simp add: ValidateToken_def ParseWithClaims_def keyFunc_def Let_def unmarshal_Claims_def
      split: option.splits)









section \<open>Access guards\<close>

lemma strings_Split_no_sep: "sep \<notin> set s \<Longrightarrow> strings_Split s sep = [s]"
  by (induction s) auto

lemma strings_Split_Bearer:
  "CHR '' '' \<notin> set tok \<Longrightarrow> strings_Split (''Bearer '' @ tok) CHR '' '' = [''Bearer'', tok]"
  by (simp add: strings_Split_no_sep)

lemma stored_user_version_None:
  assumes "stored_user_version db i = None"
  shows "\<exists>err. First_User_id_token_version i db = Inl err"
  using assms
  by (auto simp: stored_user_version_def First_User_id_token_version_def split: sum.splits)

lemma stored_admin_version_None:
  assumes "stored_admin_version db i = None"
  shows "\<exists>err. First_Admin (\<lambda>a. Admin_ID a = i) db = Inl err"
  using assms by (auto simp: stored_admin_version_def split: sum.splits)

lemma stored_admin_version_Some:
  assumes "stored_admin_version db i = Some v"
  shows "\<exists>a. First_Admin (\<lambda>a. Admin_ID a = i) db = Inr a \<and> Admin_TokenVersion a = v"
  using assms by (auto simp: stored_admin_version_def split: sum.splits)

lemma stored_user_version_deleted:
  assumes "\<forall>u \<in> set (DB_users db). User_ID u = i \<longrightarrow> User_DeletedAt u \<noteq> None"
  shows "stored_user_version db i = None"
proof -
  have "\<exists>err. First_row User_ID User_DeletedAt (\<lambda>u. User_ID u = i) (DB_users db) = Inl err"
    unfolding First_row_Inl_iff using assms by auto
  then show ?thesis by (auto simp: stored_user_version_def First_User_def)
qed

lemma stored_admin_version_deleted:
  assumes "\<forall>a \<in> set (DB_admins db). Admin_ID a = i \<longrightarrow> Admin_DeletedAt a \<noteq> None"
  shows "stored_admin_version db i = None"
proof -
  have "\<exists>err. First_row Admin_ID Admin_DeletedAt (\<lambda>a. Admin_ID a = i) (DB_admins db) = Inl err"
    unfolding First_row_Inl_iff using assms by auto
  then show ?thesis by (auto simp: stored_admin_version_def First_Admin_def)
qed

lemma JWTProtected_token:
  assumes "h \<noteq> []" "strings_Split h CHR '' '' = [''Bearer'', tok]"
  shows "JWTProtected e now db h =
     (case ValidateToken e now tok AccessToken of
        Inl PanicNilDereference \<Rightarrow> Panicked
      | Inl err \<Rightarrow> Unauthorized ''Invalid or expired token''
      | Inr claims \<Rightarrow>
          (case First_User_id_token_version (Claims_UserID claims) db of
             Inl err \<Rightarrow> Unauthorized ''User not found''
           | Inr user \<Rightarrow>
               if User_TokenVersion user \<noteq> Claims_TokenVersion claims then
                 Unauthorized ''Token has been invalidated. Please login again.''
               else Next (UserLocals (Claims_UserID claims) (Claims_Phone claims))))"
  using assms by (simp add: JWTProtected_def Let_def)

lemma AdminJWTProtected_token:
  assumes "h \<noteq> []" "strings_Split h CHR '' '' = [''Bearer'', tok]"
  shows "AdminJWTProtected e now db h =
     (case ValidateAdminToken e now tok of
        Inl PanicNilDereference \<Rightarrow> Panicked
      | Inl err \<Rightarrow> Unauthorized ''Invalid or expired token''
      | Inr claims \<Rightarrow>
          (case First_Admin (\<lambda>a. Admin_ID a = AdminClaims_AdminID claims) db of
             Inl err \<Rightarrow> Unauthorized ''Token has been invalidated''
           | Inr admin \<Rightarrow>
               if Admin_TokenVersion admin \<noteq> AdminClaims_TokenVersion claims then
                 Unauthorized ''Token has been invalidated''
               else Next (AdminLocals (AdminClaims_AdminID claims)
                            (AdminClaims_Username claims) (AdminClaims_Role claims))))"
  using assms by (simp add: AdminJWTProtected_def Let_def)

lemma JWTProtected_outcomes:
  assumes h: "h \<noteq> []" "strings_Split h CHR '' '' = [''Bearer'', tok]"
  shows "ValidateToken e now tok AccessToken = Inl err \<Longrightarrow> err \<noteq> PanicNilDereference \<Longrightarrow>
           JWTProtected e now db h = Unauthorized ''Invalid or expired token''"
    and "ValidateToken e now tok AccessToken = Inr claims \<Longrightarrow>
           stored_user_version db (Claims_UserID claims) = None \<Longrightarrow>
           JWTProtected e now db h = Unauthorized ''User not found''"
    and "ValidateToken e now tok AccessToken = Inr claims \<Longrightarrow>
           stored_user_version db (Claims_UserID claims) = Some v \<Longrightarrow>
           v \<noteq> Claims_TokenVersion claims \<Longrightarrow>
           JWTProtected e now db h =
             Unauthorized ''Token has been invalidated. Please login again.''"
    and "ValidateToken e now tok AccessToken = Inr claims \<Longrightarrow>
           stored_user_version db (Claims_UserID claims) = Some (Claims_TokenVersion claims) \<Longrightarrow>
           JWTProtected e now db h =
             Next (UserLocals (Claims_UserID claims) (Claims_Phone claims))"
proof -
  show "ValidateToken e now tok AccessToken = Inl err \<Longrightarrow> err \<noteq> PanicNilDereference \<Longrightarrow>
           JWTProtected e now db h = Unauthorized ''Invalid or expired token''"
    by (cases err) (simp_all add: JWTProtected_token [OF h])
  show "ValidateToken e now tok AccessToken = Inr claims \<Longrightarrow>
           stored_user_version db (Claims_UserID claims) = None \<Longrightarrow>
           JWTProtected e now db h = Unauthorized ''User not found''"
    using stored_user_version_None [of db "Claims_UserID claims"]
    by (auto simp: JWTProtected_token [OF h])
  show "ValidateToken e now tok AccessToken = Inr claims \<Longrightarrow>
           stored_user_version db (Claims_UserID claims) = Some v \<Longrightarrow>
           v \<noteq> Claims_TokenVersion claims \<Longrightarrow>
           JWTProtected e now db h =
             Unauthorized ''Token has been invalidated. Please login again.''"
    using stored_user_version_First [of db "Claims_UserID claims" v]
    by (auto simp: JWTProtected_token [OF h])
  show "ValidateToken e now tok AccessToken = Inr claims \<Longrightarrow>
           stored_user_version db (Claims_UserID claims) = Some (Claims_TokenVersion claims) \<Longrightarrow>
           JWTProtected e now db h =
             Next (UserLocals (Claims_UserID claims) (Claims_Phone claims))"
    using stored_user_version_First [of db "Claims_UserID claims" "Claims_TokenVersion claims"]
    by (auto simp: JWTProtected_token [OF h])
qed

lemma AdminJWTProtected_outcomes:
  assumes h: "h \<noteq> []" "strings_Split h CHR '' '' = [''Bearer'', tok]"
  shows "ValidateAdminToken e now tok = Inl err \<Longrightarrow> err \<noteq> PanicNilDereference \<Longrightarrow>
           AdminJWTProtected e now db h = Unauthorized ''Invalid or expired token''"
    and "ValidateAdminToken e now tok = Inr claims \<Longrightarrow>
           stored_admin_version db (AdminClaims_AdminID claims) = None \<Longrightarrow>
           AdminJWTProtected e now db h = Unauthorized ''Token has been invalidated''"
    and "ValidateAdminToken e now tok = Inr claims \<Longrightarrow>
           stored_admin_version db (AdminClaims_AdminID claims) = Some v \<Longrightarrow>
           v \<noteq> AdminClaims_TokenVersion claims \<Longrightarrow>
           AdminJWTProtected e now db h = Unauthorized ''Token has been invalidated''"
    and "ValidateAdminToken e now tok = Inr claims \<Longrightarrow>
           stored_admin_version db (AdminClaims_AdminID claims) =
             Some (AdminClaims_TokenVersion claims) \<Longrightarrow>
           AdminJWTProtected e now db h =
             Next (AdminLocals (AdminClaims_AdminID claims) (AdminClaims_Username claims)
                     (AdminClaims_Role claims))"
proof -
  show "ValidateAdminToken e now tok = Inl err \<Longrightarrow> err \<noteq> PanicNilDereference \<Longrightarrow>
           AdminJWTProtected e now db h = Unauthorized ''Invalid or expired token''"
    by (cases err) (simp_all add: AdminJWTProtected_token [OF h])
  show "ValidateAdminToken e now tok = Inr claims \<Longrightarrow>
           stored_admin_version db (AdminClaims_AdminID claims) = None \<Longrightarrow>
           AdminJWTProtected e now db h = Unauthorized ''Token has been invalidated''"
    using stored_admin_version_None [of db "AdminClaims_AdminID claims"]
    by (auto simp: AdminJWTProtected_token [OF h])
  show "ValidateAdminToken e now tok = Inr claims \<Longrightarrow>
           stored_admin_version db (AdminClaims_AdminID claims) = Some v \<Longrightarrow>
           v \<noteq> AdminClaims_TokenVersion claims \<Longrightarrow>
           AdminJWTProtected e now db h = Unauthorized ''Token has been invalidated''"
    using stored_admin_version_Some [of db "AdminClaims_AdminID claims" v]
    by (auto simp: AdminJWTProtected_token [OF h])
  show "ValidateAdminToken e now tok = Inr claims \<Longrightarrow>
           stored_admin_version db (AdminClaims_AdminID claims) =
             Some (AdminClaims_TokenVersion claims) \<Longrightarrow>
           AdminJWTProtected e now db h =
             Next (AdminLocals (AdminClaims_AdminID claims) (AdminClaims_Username claims)
                     (AdminClaims_Role claims))"
    using stored_admin_version_Some [of db "AdminClaims_AdminID claims"
        "AdminClaims_TokenVersion claims"]
    by (auto simp: AdminJWTProtected_token [OF h])
qed

lemmas guard_eval_defs = JWTProtected_def AdminJWTProtected_def Unauthorized_def
  ValidateToken_cases ValidateAdminToken_def ParseWithClaims_def keyFunc_def Validate_def
  First_User_id_token_version_def Select_id_token_version_def First_User_def First_Admin_def
  First_row_def unmarshal_Claims_def unmarshal_AdminClaims_def stored_admin_version_def
  stored_user_version_def AccessToken_def AdminToken_def Let_def

text \<open>
  Claim C6 (as stated, refuted).  The admin guard has no not-found answer: for a valid
  admin token whose admin is soft-deleted it answers \<^verbatim>\<open>Token has been invalidated\<close>,
  the very answer it gives for a version mismatch (and without the hint to log in
  again).  And the user guard, on success, attaches an id and a phone number, no role.
\<close>

theorem C6_counterexample:
  "stored_admin_version example_db_deleted 2 = None \<and>
   AdminJWTProtected example_env 1000000000 example_db_deleted ''Bearer atok'' =
     Unauthorized ''Token has been invalidated'' \<and>
   stored_admin_version example_db_admin_bumped 2 = Some 1 \<and>
   AdminJWTProtected example_env 1000000000 example_db_admin_bumped ''Bearer atok'' =
     Unauthorized ''Token has been invalidated'' \<and>
   JWTProtected example_env 1000000000 example_db ''Bearer tok'' =
     Next (UserLocals 1 ''+77771234567'')"
  by (simp add: guard_eval_defs example_defs example_db_deleted_def example_db_admin_bumped_def)

text \<open>
  Claim C6, amended.  Both guards decide in this order, each with status 401 until the
  last step:
  \<^item> no \<^verbatim>\<open>Authorization\<close> header: \<^verbatim>\<open>Missing authorization header\<close>;
  \<^item> a header that does not split at spaces into exactly \<^verbatim>\<open>Bearer\<close> and one more
    part: \<^verbatim>\<open>Invalid authorization header format. Use: Bearer <token>\<close> (a header
    \<^verbatim>\<open>Bearer \<close> followed by a token without spaces does split so);
  \<^item> an error of the validator for the route's kind: \<^verbatim>\<open>Invalid or expired token\<close>;
  \<^item> no row for the id of the claims that is not soft-deleted: the user guard answers
    \<^verbatim>\<open>User not found\<close>, the admin guard \<^verbatim>\<open>Token has been invalidated\<close>;
  \<^item> a stored version other than the version of the claims: the user guard answers
    \<^verbatim>\<open>Token has been invalidated. Please login again.\<close>, the admin guard
    \<^verbatim>\<open>Token has been invalidated\<close>;
  \<^item> otherwise the next handler runs, with the id and phone of the claims attached by
    the user guard, and the id, username and role of the claims by the admin guard.
\<close>

theorem C6_guard_decision_order:
  "JWTProtected e now db [] = Unauthorized ''Missing authorization header'' \<and>
   AdminJWTProtected e now db [] = Unauthorized ''Missing authorization header'' \<and>
   (h \<noteq> [] \<and> (length (strings_Split h CHR '' '') \<noteq> 2 \<or>
               strings_Split h CHR '' '' ! 0 \<noteq> ''Bearer'') \<longrightarrow>
      JWTProtected e now db h =
        Unauthorized ''Invalid authorization header format. Use: Bearer <token>'' \<and>
      AdminJWTProtected e now db h =
        Unauthorized ''Invalid authorization header format. Use: Bearer <token>'') \<and>
   (CHR '' '' \<notin> set tok \<longrightarrow>
      strings_Split (''Bearer '' @ tok) CHR '' '' = [''Bearer'', tok]) \<and>
   (h \<noteq> [] \<and> strings_Split h CHR '' '' = [''Bearer'', tok] \<longrightarrow>
      (\<forall>err. ValidateToken e now tok AccessToken = Inl err \<and> err \<noteq> PanicNilDereference \<longrightarrow>
         JWTProtected e now db h = Unauthorized ''Invalid or expired token'') \<and>
      (\<forall>claims. ValidateToken e now tok AccessToken = Inr claims \<and>
         stored_user_version db (Claims_UserID claims) = None \<longrightarrow>
         JWTProtected e now db h = Unauthorized ''User not found'') \<and>
      (\<forall>claims v. ValidateToken e now tok AccessToken = Inr claims \<and>
         stored_user_version db (Claims_UserID claims) = Some v \<and>
         v \<noteq> Claims_TokenVersion claims \<longrightarrow>
         JWTProtected e now db h =
           Unauthorized ''Token has been invalidated. Please login again.'') \<and>
      (\<forall>claims. ValidateToken e now tok AccessToken = Inr claims \<and>
         stored_user_version db (Claims_UserID claims) = Some (Claims_TokenVersion claims) \<longrightarrow>
         JWTProtected e now db h =
           Next (UserLocals (Claims_UserID claims) (Claims_Phone claims))) \<and>
      (\<forall>err. ValidateAdminToken e now tok = Inl err \<and> err \<noteq> PanicNilDereference \<longrightarrow>
         AdminJWTProtected e now db h = Unauthorized ''Invalid or expired token'') \<and>
      (\<forall>claims. ValidateAdminToken e now tok = Inr claims \<and>
         stored_admin_version db (AdminClaims_AdminID claims) = None \<longrightarrow>
         AdminJWTProtected e now db h = Unauthorized ''Token has been invalidated'') \<and>
      (\<forall>claims v. ValidateAdminToken e now tok = Inr claims \<and>
         stored_admin_version db (AdminClaims_AdminID claims) = Some v \<and>
         v \<noteq> AdminClaims_TokenVersion claims \<longrightarrow>
         AdminJWTProtected e now db h = Unauthorized ''Token has been invalidated'') \<and>
      (\<forall>claims. ValidateAdminToken e now tok = Inr claims \<and>
         stored_admin_version db (AdminClaims_AdminID claims) =
           Some (AdminClaims_TokenVersion claims) \<longrightarrow>
         AdminJWTProtected e now db h =
           Next (AdminLocals (AdminClaims_AdminID claims) (AdminClaims_Username claims)
                   (AdminClaims_Role claims)))) \<and>
   ((\<forall>u \<in> set (DB_users db). User_ID u = i \<longrightarrow> User_DeletedAt u \<noteq> None) \<longrightarrow>
      stored_user_version db i = None) \<and>
   ((\<forall>a \<in> set (DB_admins db). Admin_ID a = i \<longrightarrow> Admin_DeletedAt a \<noteq> None) \<longrightarrow>
      stored_admin_version db i = None)"
proof (intro conjI impI allI)
  show "JWTProtected e now db [] = Unauthorized ''Missing authorization header''"
    by (simp add: JWTProtected_def)
  show "AdminJWTProtected e now db [] = Unauthorized ''Missing authorization header''"
    by (simp add: AdminJWTProtected_def)
next
  assume "h \<noteq> [] \<and> (length (strings_Split h CHR '' '') \<noteq> 2 \<or>
               strings_Split h CHR '' '' ! 0 \<noteq> ''Bearer'')"
  then show "JWTProtected e now db h =
        Unauthorized ''Invalid authorization header format. Use: Bearer <token>''"
    and "AdminJWTProtected e now db h =
        Unauthorized ''Invalid authorization header format. Use: Bearer <token>''"
    by (auto simp: JWTProtected_def AdminJWTProtected_def Let_def)
next
  assume "CHR '' '' \<notin> set tok"
  then show "strings_Split (''Bearer '' @ tok) CHR '' '' = [''Bearer'', tok]"
    by (rule strings_Split_Bearer)
next
  fix err
  assume h: "h \<noteq> [] \<and> strings_Split h CHR '' '' = [''Bearer'', tok]"
    and "ValidateToken e now tok AccessToken = Inl err \<and> err \<noteq> PanicNilDereference"
  then show "JWTProtected e now db h = Unauthorized ''Invalid or expired token''"
    using JWTProtected_outcomes(1) by blast
next
  fix claims
  assume h: "h \<noteq> [] \<and> strings_Split h CHR '' '' = [''Bearer'', tok]"
    and "ValidateToken e now tok AccessToken = Inr claims \<and>
         stored_user_version db (Claims_UserID claims) = None"
  then show "JWTProtected e now db h = Unauthorized ''User not found''"
    using JWTProtected_outcomes(2) by blast
next
  fix claims v
  assume h: "h \<noteq> [] \<and> strings_Split h CHR '' '' = [''Bearer'', tok]"
    and "ValidateToken e now tok AccessToken = Inr claims \<and>
         stored_user_version db (Claims_UserID claims) = Some v \<and>
         v \<noteq> Claims_TokenVersion claims"
  then show "JWTProtected e now db h =
           Unauthorized ''Token has been invalidated. Please login again.''"
    using JWTProtected_outcomes(3) by blast
next
  fix claims
  assume h: "h \<noteq> [] \<and> strings_Split h CHR '' '' = [''Bearer'', tok]"
    and "ValidateToken e now tok AccessToken = Inr claims \<and>
         stored_user_version db (Claims_UserID claims) = Some (Claims_TokenVersion claims)"
  then show "JWTProtected e now db h =
           Next (UserLocals (Claims_UserID claims) (Claims_Phone claims))"
    using JWTProtected_outcomes(4) by blast
next
  fix err
  assume h: "h \<noteq> [] \<and> strings_Split h CHR '' '' = [''Bearer'', tok]"
    and "ValidateAdminToken e now tok = Inl err \<and> err \<noteq> PanicNilDereference"
  then show "AdminJWTProtected e now db h = Unauthorized ''Invalid or expired token''"
    using AdminJWTProtected_outcomes(1) by blast
next
  fix claims
  assume h: "h \<noteq> [] \<and> strings_Split h CHR '' '' = [''Bearer'', tok]"
    and "ValidateAdminToken e now tok = Inr claims \<and>
         stored_admin_version db (AdminClaims_AdminID claims) = None"
  then show "AdminJWTProtected e now db h = Unauthorized ''Token has been invalidated''"
    using AdminJWTProtected_outcomes(2) by blast
next
  fix claims v
  assume h: "h \<noteq> [] \<and> strings_Split h CHR '' '' = [''Bearer'', tok]"
    and "ValidateAdminToken e now tok = Inr claims \<and>
         stored_admin_version db (AdminClaims_AdminID claims) = Some v \<and>
         v \<noteq> AdminClaims_TokenVersion claims"
  then show "AdminJWTProtected e now db h = Unauthorized ''Token has been invalidated''"
    using AdminJWTProtected_outcomes(3) by blast
next
  fix claims
  assume h: "h \<noteq> [] \<and> strings_Split h CHR '' '' = [''Bearer'', tok]"
    and "ValidateAdminToken e now tok = Inr claims \<and>
         stored_admin_version db (AdminClaims_AdminID claims) =
           Some (AdminClaims_TokenVersion claims)"
  then show "AdminJWTProtected e now db h =
           Next (AdminLocals (AdminClaims_AdminID claims) (AdminClaims_Username claims)
                   (AdminClaims_Role claims))"
    using AdminJWTProtected_outcomes(4) by blast
next
  assume "\<forall>u \<in> set (DB_users db). User_ID u = i \<longrightarrow> User_DeletedAt u \<noteq> None"
  then show "stored_user_version db i = None" by (rule stored_user_version_deleted)
next
  assume "\<forall>a \<in> set (DB_admins db). Admin_ID a = i \<longrightarrow> Admin_DeletedAt a \<noteq> None"
  then show "stored_admin_version db i = None" by (rule stored_admin_version_deleted)
qed


text \<open>The amended C6 at the example environment, one header for each step.\<close>

theorem C6_guard_decision_order_witness:
  "''Token tok'' \<noteq> [] \<and> strings_Split ''Token tok'' CHR '' '' ! 0 \<noteq> ''Bearer'' \<and>
   JWTProtected example_env 1000000000 example_db ''Token tok'' =
     Unauthorized ''Invalid authorization header format. Use: Bearer <token>'' \<and>
   strings_Split ''Bearer tok'' CHR '' '' = [''Bearer'', ''tok''] \<and>
   ValidateToken example_env 1000000000 ''tok'' AccessToken =
     Inr (unmarshal_Claims example_claims) \<and>
   stored_user_version example_db 1 = Some 0 \<and>
   JWTProtected example_env 1000000000 example_db ''Bearer tok'' =
     Next (UserLocals 1 ''+77771234567'') \<and>
   stored_user_version example_db_bumped 1 = Some 1 \<and>
   JWTProtected example_env 1000000000 example_db_bumped ''Bearer tok'' =
     Unauthorized ''Token has been invalidated. Please login again.'' \<and>
   stored_user_version example_db_deleted 1 = None \<and>
   JWTProtected example_env 1000000000 example_db_deleted ''Bearer tok'' =
     Unauthorized ''User not found'' \<and>
   strings_Split ''Bearer rtok'' CHR '' '' = [''Bearer'', ''rtok''] \<and>
   ValidateToken example_env 1000000000 ''rtok'' AccessToken =
     Inl (ErrorsNew ''invalid token type'') \<and>
   JWTProtected example_env 1000000000 example_db ''Bearer rtok'' =
     Unauthorized ''Invalid or expired token'' \<and>
   strings_Split ''Bearer atok'' CHR '' '' = [''Bearer'', ''atok''] \<and>
   ValidateAdminToken example_env 1000000000 ''atok'' =
     Inr (unmarshal_AdminClaims example_admin_claims) \<and>
   stored_admin_version example_db 2 = Some 0 \<and>
   AdminJWTProtected example_env 1000000000 example_db ''Bearer atok'' =
     Next (AdminLocals 2 ''admin'' ''super'')"
proof -
  have s1: "strings_Split ''Token tok'' CHR '' '' ! 0 \<noteq> ''Bearer''" by simp
  have s2: "strings_Split ''Bearer tok'' CHR '' '' = [''Bearer'', ''tok'']" by simp
  have s3: "strings_Split ''Bearer rtok'' CHR '' '' = [''Bearer'', ''rtok'']" by simp
  have s4: "strings_Split ''Bearer atok'' CHR '' '' = [''Bearer'', ''atok'']" by simp
  have v1: "ValidateToken example_env 1000000000 ''tok'' AccessToken =
     Inr (unmarshal_Claims example_claims)"
    by (simp add: ValidateToken_cases example_env_def example_claims_def Validate_def
        AccessToken_def)
  have v2: "ValidateToken example_env 1000000000 ''rtok'' AccessToken =
     Inl (ErrorsNew ''invalid token type'')"
    by (simp add: ValidateToken_cases example_env_def example_refresh_claims_def Validate_def
        AccessToken_def)
  have v3: "ValidateAdminToken example_env 1000000000 ''atok'' =
     Inr (unmarshal_AdminClaims example_admin_claims)"
    by (simp add: ValidateAdminToken_def ParseWithClaims_def keyFunc_def example_env_def
        example_admin_claims_def Validate_def AdminToken_def unmarshal_AdminClaims_def Let_def)
  have c: "Claims_UserID (unmarshal_Claims example_claims) = 1"
    "Claims_TokenVersion (unmarshal_Claims example_claims) = 0"
    "Claims_Phone (unmarshal_Claims example_claims) = ''+77771234567''"
    "AdminClaims_AdminID (unmarshal_AdminClaims example_admin_claims) = 2"
    "AdminClaims_TokenVersion (unmarshal_AdminClaims example_admin_claims) = 0"
    "AdminClaims_Username (unmarshal_AdminClaims example_admin_claims) = ''admin''"
    "AdminClaims_Role (unmarshal_AdminClaims example_admin_claims) = ''super''"
    by (simp_all add: unmarshal_Claims_def unmarshal_AdminClaims_def example_claims_def
        example_admin_claims_def)
  have d1: "stored_user_version example_db 1 = Some 0"
    by (simp add: stored_user_version_def First_User_def First_row_def example_db_def
        example_user_def)
  have d2: "stored_user_version example_db_bumped 1 = Some 1"
    by (simp add: stored_user_version_def First_User_def First_row_def example_db_bumped_def
        example_user_def)
  have d3: "\<forall>u \<in> set (DB_users example_db_deleted). User_ID u = 1 \<longrightarrow> User_DeletedAt u \<noteq> None"
    by (simp add: example_db_deleted_def)
  have d4: "stored_admin_version example_db 2 = Some 0"
    by (simp add: stored_admin_version_def First_Admin_def First_row_def example_db_def
        example_admin_def)
  have g1: "JWTProtected example_env 1000000000 example_db ''Token tok'' =
     Unauthorized ''Invalid authorization header format. Use: Bearer <token>''"
    using C6_guard_decision_order [where e = example_env and now = 1000000000
        and db = example_db and h = "''Token tok''" and tok = "''tok''" and i = 1] s1
    by simp
  have g2: "JWTProtected example_env 1000000000 example_db ''Bearer tok'' =
     Next (UserLocals 1 ''+77771234567'')"
    using C6_guard_decision_order [where e = example_env and now = 1000000000
        and db = example_db and h = "''Bearer tok''" and tok = "''tok''" and i = 1] s2 v1 d1 c
    by simp
  have g3: "JWTProtected example_env 1000000000 example_db_bumped ''Bearer tok'' =
     Unauthorized ''Token has been invalidated. Please login again.''"
    using C6_guard_decision_order [where e = example_env and now = 1000000000
        and db = example_db_bumped and h = "''Bearer tok''" and tok = "''tok''" and i = 1]
      s2 v1 d2 c
    by simp
  have d5: "stored_user_version example_db_deleted 1 = None"
    using C6_guard_decision_order [where e = example_env and now = 1000000000
        and db = example_db_deleted and h = "''Bearer tok''" and tok = "''tok''" and i = 1] d3
    by blast
  have g4: "JWTProtected example_env 1000000000 example_db_deleted ''Bearer tok'' =
     Unauthorized ''User not found''"
    using C6_guard_decision_order [where e = example_env and now = 1000000000
        and db = example_db_deleted and h = "''Bearer tok''" and tok = "''tok''" and i = 1]
      s2 v1 d5 c
    by simp
  have g5: "JWTProtected example_env 1000000000 example_db ''Bearer rtok'' =
     Unauthorized ''Invalid or expired token''"
    using C6_guard_decision_order [where e = example_env and now = 1000000000
        and db = example_db and h = "''Bearer rtok''" and tok = "''rtok''" and i = 1] s3 v2
    by simp
  have g6: "AdminJWTProtected example_env 1000000000 example_db ''Bearer atok'' =
     Next (AdminLocals 2 ''admin'' ''super'')"
    using C6_guard_decision_order [where e = example_env and now = 1000000000
        and db = example_db and h = "''Bearer atok''" and tok = "''atok''" and i = 1] s4 v3 d4 c
    by simp
  have s0: "''Token tok'' \<noteq> []" by simp
  from s0 s1 g1 s2 v1 d1 g2 d2 g3 d5 g4 s3 v2 g5 s4 v3 d4 g6 show ?thesis
    by (intro conjI)
qed


section \<open>Administrative updates\<close>

lemma stored_admin_version_Save:
  assumes found: "First_Admin (\<lambda>a. Admin_ID a = i0) db = Inr admin"
    and a': "Admin_ID a' = Admin_ID admin" "Admin_DeletedAt a' = None"
      "Admin_TokenVersion a' = Admin_TokenVersion admin"
  shows "stored_admin_version
           (db\<lparr>DB_admins := Save_rows Admin_ID Admin_DeletedAt a' (DB_admins db)\<rparr>) i =
         stored_admin_version db i"
proof (cases "i = i0")
  case True
  have id: "Admin_ID admin = i0"
    using First_row_InrD(3) [OF found [unfolded First_Admin_def]] by simp
  have "First_Admin (\<lambda>a. Admin_ID a = i0)
          (db\<lparr>DB_admins := Save_rows Admin_ID Admin_DeletedAt a' (DB_admins db)\<rparr>) = Inr a'"
    using found a' id by (intro First_Admin_Save [of _ _ admin]) auto
  then show ?thesis using found a' True by (simp add: stored_admin_version_def)
next
  case False
  have id: "Admin_ID admin = i0"
    using First_row_InrD(3) [OF found [unfolded First_Admin_def]] by simp
  have "First_row Admin_ID Admin_DeletedAt (\<lambda>a. Admin_ID a = i)
          (Save_rows Admin_ID Admin_DeletedAt a' (DB_admins db)) =
        First_row Admin_ID Admin_DeletedAt (\<lambda>a. Admin_ID a = i) (DB_admins db)"
    using False a' id by (intro First_row_Save_rows_other) auto
  then show ?thesis by (simp add: stored_admin_version_def First_Admin_def)
qed

lemma AdminJWTProtected_stored:
  assumes "\<And>i. stored_admin_version db' i = stored_admin_version db i"
  shows "AdminJWTProtected e now db' h = AdminJWTProtected e now db h"
proof -
  have eq: "(case First_Admin (\<lambda>a. Admin_ID a = i) db' of
               Inl err \<Rightarrow> x
             | Inr admin \<Rightarrow> if Admin_TokenVersion admin \<noteq> v then y else z) =
            (case First_Admin (\<lambda>a. Admin_ID a = i) db of
               Inl err \<Rightarrow> x
             | Inr admin \<Rightarrow> if Admin_TokenVersion admin \<noteq> v then y else z)"
    for i v and x y z :: guard_result
    using assms [of i] by (auto simp: stored_admin_version_def split: sum.splits)
  show ?thesis
    unfolding AdminJWTProtected_def Let_def eq ..
qed

lemma ValidateAdminToken_minted:
  assumes "decodes_and_verifies e tok
             (marshal_AdminClaims (minted_AdminClaims now0 adminID username role v))"
    and "now0 \<le> now"
  shows "ValidateAdminToken e now tok = Inr (minted_AdminClaims now0 adminID username role v)"
proof -
  let ?c = "minted_AdminClaims now0 adminID username role v"
  have p: "ParseWithClaims e now tok (keyFunc e) =
           Inr \<lparr>Token_Method = SigningMethodHS256, Token_Claims = marshal_AdminClaims ?c,
                Token_Valid = True\<rparr>"
    using assms by (intro ParseWithClaims_accepts Validate_minted_AdminClaims) auto
  have f: "AdminClaims_TokenType ?c = AdminToken" "AdminClaims_IssuedAt ?c \<noteq> None"
    by (simp_all add: minted_AdminClaims_def)
  show ?thesis
    using f by (simp add: ValidateAdminToken_def p unmarshal_marshal_AdminClaims Let_def)
qed

lemma minted_admin_token_passes:
  assumes "decodes_and_verifies e tok
             (marshal_AdminClaims (minted_AdminClaims now0 adminID username role v))"
    and "now0 \<le> now" and "CHR '' '' \<notin> set tok"
    and "stored_admin_version db adminID = Some v"
  shows "AdminJWTProtected e now db (''Bearer '' @ tok) =
           Next (AdminLocals adminID username role)"
proof -
  have v: "ValidateAdminToken e now tok = Inr (minted_AdminClaims now0 adminID username role v)"
    using assms(1,2) by (rule ValidateAdminToken_minted)
  have f: "AdminClaims_AdminID (minted_AdminClaims now0 adminID username role v) = adminID"
    "AdminClaims_Username (minted_AdminClaims now0 adminID username role v) = username"
    "AdminClaims_Role (minted_AdminClaims now0 adminID username role v) = role"
    "AdminClaims_TokenVersion (minted_AdminClaims now0 adminID username role v) = v"
    by (simp_all add: minted_AdminClaims_def)
  have h: "''Bearer '' @ tok \<noteq> []" by simp
  show ?thesis
    using AdminJWTProtected_outcomes(4) [OF h strings_Split_Bearer [OF assms(3)] v] assms(4)
    by (simp add: f)
qed

text \<open>
  Claim C7.  A password update of an admin through \<^verbatim>\<open>UpdateAdmin\<close> (by that admin or
  by a super admin, with a password of at least six bytes and a hash that succeeds)
  answers 200, stores the new hash, and leaves the token version of every admin as it
  was.  The admin guard therefore answers every header at every instant as it did
  before; in particular a token minted for the admin before the update, which passed the
  guard then, passes it afterwards.
\<close>

theorem C7_admin_password_update_keeps_version:
  assumes auth: "requestingAdminID = adminID \<or> requestingAdminRole = RoleSuper"
    and found: "First_Admin (\<lambda>a. Admin_ID a = adminID) db = Inr admin"
    and len: "6 \<le> length password"
    and hash: "bcrypt_GenerateFromPassword e password = Inr hashed"
  shows "\<exists>db'.
      UpdateAdmin e now db (Some adminID) requestingAdminRole requestingAdminID
          (Some (UpdateAdminRequest (Some password) None None)) =
        (Response 200 True ''Admin updated successfully''
           (AdminData adminID (Admin_Username admin) (Admin_Role admin)), db') \<and>
      First_Admin (\<lambda>a. Admin_ID a = adminID) db' =
        Inr (admin\<lparr>Admin_Password := hashed, Admin_UpdatedAt := now\<rparr>) \<and>
      (\<forall>i. stored_admin_version db' i = stored_admin_version db i) \<and>
      (\<forall>now' h. AdminJWTProtected e now' db' h = AdminJWTProtected e now' db h) \<and>
      (\<forall>tok now0 now'.
         decodes_and_verifies e tok
           (marshal_AdminClaims
              (minted_AdminClaims now0 adminID (Admin_Username admin) (Admin_Role admin)
                 (Admin_TokenVersion admin))) \<and>
         CHR '' '' \<notin> set tok \<and> now0 \<le> now' \<longrightarrow>
         AdminJWTProtected e now' db (''Bearer '' @ tok) =
           Next (AdminLocals adminID (Admin_Username admin) (Admin_Role admin)) \<and>
         AdminJWTProtected e now' db' (''Bearer '' @ tok) =
           Next (AdminLocals adminID (Admin_Username admin) (Admin_Role admin)))"
proof -
  have live: "Admin_DeletedAt admin = None" and id: "Admin_ID admin = adminID"
    using First_row_InrD [OF found [unfolded First_Admin_def]] by auto
  let ?a = "admin\<lparr>Admin_Password := hashed, Admin_UpdatedAt := now\<rparr>"
  let ?db' = "db\<lparr>DB_admins := Save_rows Admin_ID Admin_DeletedAt ?a (DB_admins db)\<rparr>"
  have call: "UpdateAdmin e now db (Some adminID) requestingAdminRole requestingAdminID
          (Some (UpdateAdminRequest (Some password) None None)) =
        (Response 200 True ''Admin updated successfully''
           (AdminData adminID (Admin_Username admin) (Admin_Role admin)), ?db')"
    using auth found len hash live id
    by (auto simp: UpdateAdmin_def Let_def Save_Admin_live)
  have first: "First_Admin (\<lambda>a. Admin_ID a = adminID) ?db' = Inr ?a"
    using found live id by (intro First_Admin_Save [of _ _ admin]) auto
  have stored: "stored_admin_version ?db' i = stored_admin_version db i" for i
    using found live id by (intro stored_admin_version_Save [of adminID]) auto
  have guard: "AdminJWTProtected e now' ?db' h = AdminJWTProtected e now' db h" for now' h
    by (rule AdminJWTProtected_stored) (rule stored)
  have sv: "stored_admin_version db adminID = Some (Admin_TokenVersion admin)"
    using found by (simp add: stored_admin_version_def)
  have minted: "AdminJWTProtected e now' db (''Bearer '' @ tok) =
           Next (AdminLocals adminID (Admin_Username admin) (Admin_Role admin)) \<and>
         AdminJWTProtected e now' ?db' (''Bearer '' @ tok) =
           Next (AdminLocals adminID (Admin_Username admin) (Admin_Role admin))"
    if "decodes_and_verifies e tok
           (marshal_AdminClaims
              (minted_AdminClaims now0 adminID (Admin_Username admin) (Admin_Role admin)
                 (Admin_TokenVersion admin))) \<and>
         CHR '' '' \<notin> set tok \<and> now0 \<le> now'" for tok now0 now'
    using minted_admin_token_passes [of e tok now0 adminID "Admin_Username admin"
        "Admin_Role admin" "Admin_TokenVersion admin" now' db] that sv guard [of now']
    by simp
  show ?thesis
    by (rule exI [of _ ?db'], insert call first stored guard minted, blast)
qed


text \<open>
  C7 at the example store: the admin's token of version 0 passes the guard after the
  password update.
\<close>

theorem C7_admin_password_update_keeps_version_witness:
  "First_Admin (\<lambda>a. Admin_ID a = 2) example_db = Inr example_admin \<and>
   (6::nat) \<le> length ''newpassword123'' \<and>
   bcrypt_GenerateFromPassword example_env ''newpassword123'' = Inr ''$2a$10$newpassword123'' \<and>
   decodes_and_verifies example_env ''atok''
     (marshal_AdminClaims (minted_AdminClaims 1000000000 2 ''admin'' ''super'' 0)) \<and>
   Status (fst (UpdateAdmin example_env 1500000000 example_db (Some 2) ''super'' 2
                  (Some (UpdateAdminRequest (Some ''newpassword123'') None None)))) = 200 \<and>
   stored_admin_version
     (snd (UpdateAdmin example_env 1500000000 example_db (Some 2) ''super'' 2
             (Some (UpdateAdminRequest (Some ''newpassword123'') None None)))) 2 = Some 0 \<and>
   AdminJWTProtected example_env 2000000000
     (snd (UpdateAdmin example_env 1500000000 example_db (Some 2) ''super'' 2
             (Some (UpdateAdminRequest (Some ''newpassword123'') None None))))
     ''Bearer atok'' = Next (AdminLocals 2 ''admin'' ''super'')"
proof -
  have h1: "(2::uuid) = 2 \<or> ''super'' = RoleSuper" by simp
  have h2: "First_Admin (\<lambda>a. Admin_ID a = 2) example_db = Inr example_admin"
    by (simp add: First_Admin_def First_row_def example_db_def example_admin_def)
  have h3: "(6::nat) \<le> length ''newpassword123''" by simp
  have h4: "bcrypt_GenerateFromPassword example_env ''newpassword123'' =
              Inr ''$2a$10$newpassword123''"
    by (simp add: example_env_def)
  have h5: "decodes_and_verifies example_env ''atok''
     (marshal_AdminClaims (minted_AdminClaims 1000000000 2 ''admin'' ''super'' 0))"
    by (simp add: decodes_and_verifies_def example_env_def example_admin_claims_def
        marshal_AdminClaims_def minted_AdminClaims_def AdminToken_def NewNumericDate_def
        TimePrecision_def)
  have f: "Admin_Username example_admin = ''admin''" "Admin_Role example_admin = ''super''"
    "Admin_TokenVersion example_admin = 0"
    by (simp_all add: example_admin_def)
  have sv: "stored_admin_version example_db 2 = Some 0"
    by (simp add: stored_admin_version_def h2 f)
  have sp: "CHR '' '' \<notin> set ''atok''" by simp
  from C7_admin_password_update_keeps_version [where now = 1500000000, OF h1 h2 h3 h4]
  obtain db' where
    c: "UpdateAdmin example_env 1500000000 example_db (Some 2) ''super'' 2
          (Some (UpdateAdminRequest (Some ''newpassword123'') None None)) =
        (Response 200 True ''Admin updated successfully''
           (AdminData 2 (Admin_Username example_admin) (Admin_Role example_admin)), db')"
    and s: "\<forall>i. stored_admin_version db' i = stored_admin_version example_db i"
    and m: "\<forall>tok now0 now'.
         decodes_and_verifies example_env tok
           (marshal_AdminClaims
              (minted_AdminClaims now0 2 (Admin_Username example_admin)
                 (Admin_Role example_admin) (Admin_TokenVersion example_admin))) \<and>
         CHR '' '' \<notin> set tok \<and> now0 \<le> now' \<longrightarrow>
         AdminJWTProtected example_env now' example_db (''Bearer '' @ tok) =
           Next (AdminLocals 2 (Admin_Username example_admin) (Admin_Role example_admin)) \<and>
         AdminJWTProtected example_env now' db' (''Bearer '' @ tok) =
           Next (AdminLocals 2 (Admin_Username example_admin) (Admin_Role example_admin))"
    by blast
  have g: "AdminJWTProtected example_env 2000000000 db' (''Bearer '' @ ''atok'') =
             Next (AdminLocals 2 ''admin'' ''super'')"
    using m [rule_format, of "''atok''" 1000000000 2000000000] h5 sp by (simp add: f)
  have "Status (fst (UpdateAdmin example_env 1500000000 example_db (Some 2) ''super'' 2
                  (Some (UpdateAdminRequest (Some ''newpassword123'') None None)))) = 200"
    "stored_admin_version
     (snd (UpdateAdmin example_env 1500000000 example_db (Some 2) ''super'' 2
             (Some (UpdateAdminRequest (Some ''newpassword123'') None None)))) 2 = Some 0"
    "AdminJWTProtected example_env 2000000000
     (snd (UpdateAdmin example_env 1500000000 example_db (Some 2) ''super'' 2
             (Some (UpdateAdminRequest (Some ''newpassword123'') None None))))
     ''Bearer atok'' = Next (AdminLocals 2 ''admin'' ''super'')"
    using c s sv g by simp_all
  with h2 h3 h4 h5 show ?thesis by (intro conjI)
qed





lemma stored_user_version_Inr:
  "First_User (\<lambda>u. User_ID u = i) db = Inr u \<Longrightarrow>
     stored_user_version db i = Some (User_TokenVersion u)"
  by (simp add: stored_user_version_def)





lemma UpdateUser_phone_Inr:
  assumes "UpdateUser_phone db req user = Inr user1"
  shows "User_ID user1 = User_ID user" "User_DeletedAt user1 = User_DeletedAt user"
    "User_TokenVersion user1 = User_TokenVersion user"
    "\<not> (UpdateUserRequest_Phone req \<noteq> [] \<and> UpdateUserRequest_Phone req \<noteq> User_Phone user1)"
  using assms
  by (auto simp: UpdateUser_phone_def split: if_splits sum.splits)

lemma UpdateUser_password_Inr:
  assumes "UpdateUser_password e req user1 = Inr user2"
  shows "User_ID user2 = User_ID user1" "User_DeletedAt user2 = User_DeletedAt user1"
    "User_TokenVersion user2 =
       (if UpdateUserRequest_Password req \<noteq> [] then User_TokenVersion user1 + 1
        else User_TokenVersion user1)"
    "User_Phone user2 = User_Phone user1"
  using assms
  by (auto simp: UpdateUser_password_def split: if_splits sum.splits)

lemma UpdateUser_phone_changed_unreachable:
  assumes "UpdateUser_phone db req user = Inr user1"
    and "UpdateUser_password e req user1 = Inr user2"
  shows "UpdateUser_phone_changed req user2 = user2"
  using UpdateUser_phone_Inr(4) [OF assms(1)] UpdateUser_password_Inr(4) [OF assms(2)]
  by (simp add: UpdateUser_phone_changed_def)

lemma UpdateUser_save_store:
  assumes "User_DeletedAt u = None"
  shows "snd (UpdateUser_save now db req assign u) =
           db\<lparr>DB_users := Save_rows User_ID User_DeletedAt (u\<lparr>User_UpdatedAt := now\<rparr>)
                             (DB_users db)\<rparr>"
    and "Status (fst (UpdateUser_save now db req assign u)) = 200"
  using assms by (simp_all add: UpdateUser_save_def Save_User_live split: option.splits)

lemma UpdateUser_store:
  assumes found: "First_User (\<lambda>u. User_ID u = userID) db = Inr user"
  shows "snd (UpdateUser e now db (Some userID) (Some req) assign) = db \<or>
         (\<exists>u'. snd (UpdateUser e now db (Some userID) (Some req) assign) =
                 db\<lparr>DB_users := Save_rows User_ID User_DeletedAt u' (DB_users db)\<rparr> \<and>
               User_ID u' = userID \<and> User_DeletedAt u' = None \<and>
               User_TokenVersion u' =
                 (if UpdateUserRequest_Password req \<noteq> [] then User_TokenVersion user + 1
                  else User_TokenVersion user))"
proof -
  have live: "User_DeletedAt user = None" and id: "User_ID user = userID"
    using First_row_InrD [OF found [unfolded First_User_def]] by auto
  show ?thesis
  proof (cases "UpdateUserRequest_Password req \<noteq> [] \<and> length (UpdateUserRequest_Password req) < 6")
    case True
    then show ?thesis by (simp add: UpdateUser_def)
  next
    case False
    note short = if_not_P [OF False]
    show ?thesis
    proof (cases "UpdateUser_phone db req user")
      case (Inl resp)
      then show ?thesis using found by (simp add: UpdateUser_def short)
    next
      case u1: (Inr user1)
      show ?thesis
      proof (cases "UpdateUser_password e req user1")
        case (Inl resp)
        then show ?thesis using found u1 by (simp add: UpdateUser_def short)
      next
        case u2: (Inr user2)
        have same: "UpdateUser_phone_changed req user2 = user2"
          using u1 u2 by (rule UpdateUser_phone_changed_unreachable)
        have f: "User_ID user2 = userID" "User_DeletedAt user2 = None"
          "User_TokenVersion user2 =
             (if UpdateUserRequest_Password req \<noteq> [] then User_TokenVersion user + 1
              else User_TokenVersion user)"
          using UpdateUser_phone_Inr [OF u1] UpdateUser_password_Inr [OF u2] live id by simp_all
        have "snd (UpdateUser e now db (Some userID) (Some req) assign) =
                db\<lparr>DB_users := Save_rows User_ID User_DeletedAt (user2\<lparr>User_UpdatedAt := now\<rparr>)
                                  (DB_users db)\<rparr>"
          using found u1 u2 same UpdateUser_save_store(1) [OF f(2)]
          by (simp add: UpdateUser_def short)
        then show ?thesis
          using f by (intro disjI2 exI [of _ "user2\<lparr>User_UpdatedAt := now\<rparr>"]) simp
      qed
    qed
  qed
qed


lemma stored_user_version_Save:
  assumes found: "First_User (\<lambda>u. User_ID u = userID) db = Inr user"
    and u': "User_ID u' = userID" "User_DeletedAt u' = None"
  shows "First_User (\<lambda>u. User_ID u = userID)
           (db\<lparr>DB_users := Save_rows User_ID User_DeletedAt u' (DB_users db)\<rparr>) = Inr u'"
proof -
  have id: "User_ID user = userID"
    using First_row_InrD(3) [OF found [unfolded First_User_def]] by simp
  show ?thesis using found u' id by (intro First_User_Save [of _ _ user]) auto
qed

text \<open>
  Claim C9.  For a user that \<^verbatim>\<open>UpdateUser\<close> finds: an update that sends a new,
  well-formed, unused phone number and no password answers 200, stores the phone number
  and leaves the stored token version as it was.  The block that would increment the
  version for a changed phone number never changes the \<^verbatim>\<open>user\<close> variable: when it
  is reached, the phone number of the request is empty or already equal to the one in
  the variable, the earlier block having written it there.  So for every request the
  stored version afterwards is the old one, or one more and then a password was sent.
\<close>

theorem C9_phone_change_keeps_version:
  assumes found: "First_User (\<lambda>u. User_ID u = userID) db = Inr user"
  shows "(phone \<noteq> [] \<and> phone \<noteq> User_Phone user \<and> phoneRegex_MatchString phone \<and>
          (\<exists>err. First_User (\<lambda>u. User_Phone u = phone) db = Inl err) \<longrightarrow>
            Status (fst (UpdateUser e now db (Some userID)
                           (Some (UpdateUserRequest phone [] locations)) assign)) = 200 \<and>
            First_User (\<lambda>u. User_ID u = userID)
              (snd (UpdateUser e now db (Some userID)
                      (Some (UpdateUserRequest phone [] locations)) assign)) =
              Inr (user\<lparr>User_Phone := phone, User_UpdatedAt := now\<rparr>) \<and>
            stored_user_version
              (snd (UpdateUser e now db (Some userID)
                      (Some (UpdateUserRequest phone [] locations)) assign)) userID =
              Some (User_TokenVersion user)) \<and>
         (\<forall>user1 user2. UpdateUser_phone db req user = Inr user1 \<and>
            UpdateUser_password e req user1 = Inr user2 \<longrightarrow>
            UpdateUser_phone_changed req user2 = user2) \<and>
         (stored_user_version (snd (UpdateUser e now db (Some userID) (Some req) assign)) userID =
            Some (User_TokenVersion user) \<or>
          UpdateUserRequest_Password req \<noteq> [] \<and>
          stored_user_version (snd (UpdateUser e now db (Some userID) (Some req) assign)) userID =
            Some (User_TokenVersion user + 1))"
proof (intro conjI impI allI)
  have live: "User_DeletedAt user = None" and id: "User_ID user = userID"
    using First_row_InrD [OF found [unfolded First_User_def]] by auto
  assume a: "phone \<noteq> [] \<and> phone \<noteq> User_Phone user \<and> phoneRegex_MatchString phone \<and>
          (\<exists>err. First_User (\<lambda>u. User_Phone u = phone) db = Inl err)"
  let ?req = "UpdateUserRequest phone [] locations"
  let ?u = "user\<lparr>User_Phone := phone\<rparr>"
  have p: "UpdateUser_phone db ?req user = Inr ?u"
    using a by (auto simp: UpdateUser_phone_def)
  have q: "UpdateUser_password e ?req ?u = Inr ?u"
    by (simp add: UpdateUser_password_def)
  have c: "UpdateUser_phone_changed ?req ?u = ?u"
    by (simp add: UpdateUser_phone_changed_def)
  have call: "UpdateUser e now db (Some userID) (Some ?req) assign =
                UpdateUser_save now db ?req assign ?u"
    using found p q c by (simp add: UpdateUser_def)
  have lu: "User_DeletedAt ?u = None" using live by simp
  show "Status (fst (UpdateUser e now db (Some userID) (Some ?req) assign)) = 200"
    using UpdateUser_save_store(2) [OF lu] by (simp add: call)
  have s: "snd (UpdateUser e now db (Some userID) (Some ?req) assign) =
             db\<lparr>DB_users := Save_rows User_ID User_DeletedAt (?u\<lparr>User_UpdatedAt := now\<rparr>)
                               (DB_users db)\<rparr>"
    using UpdateUser_save_store(1) [OF lu] by (simp add: call)
  show f: "First_User (\<lambda>u. User_ID u = userID)
              (snd (UpdateUser e now db (Some userID) (Some ?req) assign)) =
              Inr (user\<lparr>User_Phone := phone, User_UpdatedAt := now\<rparr>)"
    unfolding s using live id by (intro stored_user_version_Save [OF found]) simp_all
  show "stored_user_version
              (snd (UpdateUser e now db (Some userID) (Some ?req) assign)) userID =
              Some (User_TokenVersion user)"
    using stored_user_version_Inr [OF f] by simp
next
  fix user1 user2
  assume "UpdateUser_phone db req user = Inr user1 \<and>
            UpdateUser_password e req user1 = Inr user2"
  then show "UpdateUser_phone_changed req user2 = user2"
    using UpdateUser_phone_changed_unreachable by blast
next
  let ?d = "snd (UpdateUser e now db (Some userID) (Some req) assign)"
  from UpdateUser_store [OF found, of e now req assign]
  show "stored_user_version ?d userID = Some (User_TokenVersion user) \<or>
          UpdateUserRequest_Password req \<noteq> [] \<and>
          stored_user_version ?d userID = Some (User_TokenVersion user + 1)"
  proof
    assume "?d = db"
    then show ?thesis using stored_user_version_Inr [OF found] by simp
  next
    assume "\<exists>u'. ?d = db\<lparr>DB_users := Save_rows User_ID User_DeletedAt u' (DB_users db)\<rparr> \<and>
               User_ID u' = userID \<and> User_DeletedAt u' = None \<and>
               User_TokenVersion u' =
                 (if UpdateUserRequest_Password req \<noteq> [] then User_TokenVersion user + 1
                  else User_TokenVersion user)"
    then obtain u' where u': "?d = db\<lparr>DB_users := Save_rows User_ID User_DeletedAt u' (DB_users db)\<rparr>"
      "User_ID u' = userID" "User_DeletedAt u' = None"
      "User_TokenVersion u' =
                 (if UpdateUserRequest_Password req \<noteq> [] then User_TokenVersion user + 1
                  else User_TokenVersion user)"
      by blast
    have "First_User (\<lambda>u. User_ID u = userID) ?d = Inr u'"
      unfolding u'(1) using u'(2,3) by (rule stored_user_version_Save [OF found])
    then have "stored_user_version ?d userID = Some (User_TokenVersion u')"
      by (rule stored_user_version_Inr)
    then show ?thesis using u'(4) by (cases "UpdateUserRequest_Password req = []") simp_all
  qed
qed

text \<open>C9 at the example store: a phone change alone leaves version 0 at 0.\<close>

theorem C9_phone_change_keeps_version_witness:
  "First_User (\<lambda>u. User_ID u = 1) example_db = Inr example_user \<and>
   ''+77770000000'' \<noteq> User_Phone example_user \<and>
   phoneRegex_MatchString ''+77770000000'' \<and>
   First_User (\<lambda>u. User_Phone u = ''+77770000000'') example_db = Inl ErrRecordNotFound \<and>
   Status (fst (UpdateUser example_env 1500000000 example_db (Some 1)
                  (Some (UpdateUserRequest ''+77770000000'' [] [])) None)) = 200 \<and>
   stored_user_version
     (snd (UpdateUser example_env 1500000000 example_db (Some 1)
             (Some (UpdateUserRequest ''+77770000000'' [] [])) None)) 1 = Some 0"
proof -
  have h1: "First_User (\<lambda>u. User_ID u = 1) example_db = Inr example_user"
    by (simp add: First_User_def First_row_def example_db_def example_user_def)
  have h2: "''+77770000000'' \<noteq> User_Phone example_user" by (simp add: example_user_def)
  have h3: "phoneRegex_MatchString ''+77770000000''" by simp
  have h4: "First_User (\<lambda>u. User_Phone u = ''+77770000000'') example_db = Inl ErrRecordNotFound"
    by (simp add: First_User_def First_row_def example_db_def example_user_def)
  have h5: "''+77770000000'' \<noteq> []" by simp
  have v: "User_TokenVersion example_user = 0" by (simp add: example_user_def)
  from C9_phone_change_keeps_version [OF h1, where phone = "''+77770000000''"
      and e = example_env and now = 1500000000 and locations = "[]" and assign = None]
    h2 h3 h4 h5
  have "Status (fst (UpdateUser example_env 1500000000 example_db (Some 1)
                  (Some (UpdateUserRequest ''+77770000000'' [] [])) None)) = 200"
    "stored_user_version
     (snd (UpdateUser example_env 1500000000 example_db (Some 1)
             (Some (UpdateUserRequest ''+77770000000'' [] [])) None)) 1 =
       Some (User_TokenVersion example_user)"
    by blast+
  with h1 h2 h3 h4 show ?thesis by (simp add: v)
qed


section \<open>Registration\<close>

lemma First_row_append_new:
  assumes "\<forall>r \<in> set rows. \<not> (deleted r = None \<and> cond r)" "deleted u = None" "cond u"
  shows "First_row pk deleted cond (rows @ [u]) = Inr u"
proof -
  have "filter (\<lambda>r. deleted r = None \<and> cond r) rows = []"
    using assms(1) by (simp add: filter_empty_conv)
  then show ?thesis using assms(2,3) by (simp add: First_row_def)
qed

text \<open>
  Claim C10.  Registration with a well-formed phone number and a password of at least six
  bytes, in a store where a soft-deleted user has that phone number and no user that is
  not soft-deleted has it, succeeds (with a hash that succeeds and a fresh id): the
  duplicate check looks at rows that are not soft-deleted only, and the composite index
  on phone and \<^verbatim>\<open>deleted_at\<close> does not refuse the new row.  The answer is 201 with the
  new id, the new row has version 0 and is the one a lookup by that phone number now
  finds, and the soft-deleted row is still in the table.
\<close>

theorem C10_register_reuses_soft_deleted_phone:
  assumes fmt: "phoneRegex_MatchString phone"
    and len: "6 \<le> length password"
    and deleted: "u0 \<in> set (DB_users db)" "User_Phone u0 = phone" "User_DeletedAt u0 \<noteq> None"
    and nolive: "\<forall>u \<in> set (DB_users db). User_Phone u = phone \<longrightarrow> User_DeletedAt u \<noteq> None"
    and hash: "bcrypt_GenerateFromPassword e password = Inr hashed"
    and fresh: "\<forall>u \<in> set (DB_users db). User_ID u \<noteq> newID"
  shows "\<exists>db'.
      Register e now newID db (Some (RegisterRequest phone password)) =
        (Response 201 True ''User registered successfully'' (UserData newID phone), db') \<and>
      First_User (\<lambda>u. User_ID u = newID) db' =
        Inr \<lparr>User_ID = newID, User_Phone = phone, User_Password = hashed,
             User_TokenVersion = 0, User_CurrentDeviceID = [], User_CreatedAt = now,
             User_UpdatedAt = now, User_DeletedAt = None\<rparr> \<and>
      First_User (\<lambda>u. User_Phone u = phone) db' =
        Inr \<lparr>User_ID = newID, User_Phone = phone, User_Password = hashed,
             User_TokenVersion = 0, User_CurrentDeviceID = [], User_CreatedAt = now,
             User_UpdatedAt = now, User_DeletedAt = None\<rparr> \<and>
      stored_user_version db' newID = Some 0 \<and>
      u0 \<in> set (DB_users db')"
proof -
  let ?new = "\<lparr>User_ID = newID, User_Phone = phone, User_Password = hashed,
             User_TokenVersion = 0, User_CurrentDeviceID = [], User_CreatedAt = now,
             User_UpdatedAt = now, User_DeletedAt = None\<rparr>"
  let ?db' = "db\<lparr>DB_users := DB_users db @ [?new]\<rparr>"
  have "\<exists>err. First_row User_ID User_DeletedAt (\<lambda>u. User_Phone u = phone) (DB_users db) = Inl err"
    unfolding First_row_Inl_iff using nolive by auto
  then obtain err where dup: "First_User (\<lambda>u. User_Phone u = phone) db = Inl err"
    by (auto simp: First_User_def)
  have create: "Create_User e now newID
          \<lparr>User_ID = uuid_Nil, User_Phone = phone, User_Password = password,
           User_TokenVersion = 0, User_CurrentDeviceID = [], User_CreatedAt = 0,
           User_UpdatedAt = 0, User_DeletedAt = None\<rparr> db = Inr (?new, ?db')"
    using hash fresh
    by (auto simp: Create_User_def User_BeforeCreate_def index_conflict_def Let_def)
  have reg: "Register e now newID db (Some (RegisterRequest phone password)) =
        (Response 201 True ''User registered successfully'' (UserData newID phone), ?db')"
    using fmt len dup create by (simp add: Register_def Let_def)
  have byid: "First_User (\<lambda>u. User_ID u = newID) ?db' = Inr ?new"
    using fresh by (simp add: First_User_def First_row_append_new)
  have byphone: "First_User (\<lambda>u. User_Phone u = phone) ?db' = Inr ?new"
    using nolive by (auto simp: First_User_def intro!: First_row_append_new)
  have sv: "stored_user_version ?db' newID = Some 0"
    using byid by (simp add: stored_user_version_def)
  have still: "u0 \<in> set (DB_users ?db')" using deleted(1) by simp
  show ?thesis
    by (rule exI [of _ ?db'], insert reg byid byphone sv still, intro conjI; assumption)
qed

text \<open>C10 at the example store after the soft delete of its user.\<close>

theorem C10_register_reuses_soft_deleted_phone_witness:
  "phoneRegex_MatchString ''+77771234567'' \<and> (6::nat) \<le> length ''password123'' \<and>
   example_user\<lparr>User_DeletedAt := Some 500000000\<rparr> \<in> set (DB_users example_db_deleted) \<and>
   User_Phone (example_user\<lparr>User_DeletedAt := Some 500000000\<rparr>) = ''+77771234567'' \<and>
   User_DeletedAt (example_user\<lparr>User_DeletedAt := Some 500000000\<rparr>) \<noteq> None \<and>
   First_User (\<lambda>u. User_Phone u = ''+77771234567'') example_db_deleted =
     Inl ErrRecordNotFound \<and>
   bcrypt_GenerateFromPassword example_env ''password123'' = Inr ''$2a$10$password123'' \<and>
   fst (Register example_env 1000000000 7 example_db_deleted
          (Some (RegisterRequest ''+77771234567'' ''password123''))) =
     Response 201 True ''User registered successfully'' (UserData 7 ''+77771234567'') \<and>
   stored_user_version
     (snd (Register example_env 1000000000 7 example_db_deleted
             (Some (RegisterRequest ''+77771234567'' ''password123'')))) 7 = Some 0"
proof -
  have h1: "phoneRegex_MatchString ''+77771234567''" by simp
  have h2: "(6::nat) \<le> length ''password123''" by simp
  have h3: "example_user\<lparr>User_DeletedAt := Some 500000000\<rparr> \<in> set (DB_users example_db_deleted)"
    by (simp add: example_db_deleted_def)
  have h4: "User_Phone (example_user\<lparr>User_DeletedAt := Some 500000000\<rparr>) = ''+77771234567''"
    by (simp add: example_user_def)
  have h5: "User_DeletedAt (example_user\<lparr>User_DeletedAt := Some 500000000\<rparr>) \<noteq> None" by simp
  have h6: "\<forall>u \<in> set (DB_users example_db_deleted).
      User_Phone u = ''+77771234567'' \<longrightarrow> User_DeletedAt u \<noteq> None"
    by (simp add: example_db_deleted_def)
  have h7: "bcrypt_GenerateFromPassword example_env ''password123'' = Inr ''$2a$10$password123''"
    by (simp add: example_env_def)
  have h8: "\<forall>u \<in> set (DB_users example_db_deleted). User_ID u \<noteq> 7"
    by (simp add: example_db_deleted_def example_user_def)
  from C10_register_reuses_soft_deleted_phone [where now = 1000000000,
      OF h1 h2 h3 h4 h5 h6 h7 h8]
  obtain db' where
    "Register example_env 1000000000 7 example_db_deleted
        (Some (RegisterRequest ''+77771234567'' ''password123'')) =
      (Response 201 True ''User registered successfully'' (UserData 7 ''+77771234567''), db')"
    "stored_user_version db' 7 = Some 0"
    by blast
  then have "fst (Register example_env 1000000000 7 example_db_deleted
          (Some (RegisterRequest ''+77771234567'' ''password123''))) =
     Response 201 True ''User registered successfully'' (UserData 7 ''+77771234567'')"
    "stored_user_version
     (snd (Register example_env 1000000000 7 example_db_deleted
             (Some (RegisterRequest ''+77771234567'' ''password123'')))) 7 = Some 0"
    by simp_all
  moreover have "First_User (\<lambda>u. User_Phone u = ''+77771234567'') example_db_deleted =
     Inl ErrRecordNotFound"
    by (simp add: First_User_def First_row_def example_db_deleted_def example_user_def)
  ultimately show ?thesis using h1 h2 h3 h4 h5 h7 by (intro conjI)
qed


end
